theory Spec2Isabelle
  imports Complex_Main
begin

section \<open>Signals and similarity\<close>

text \<open>
  Numbers of the program are IEEE doubles; they are modelled as \<^typ>\<open>real\<close>, counters and
  lengths as \<^typ>\<open>nat\<close>, clock readings (milliseconds) as \<^typ>\<open>int\<close>. A rejected promise
  or a thrown exception is a value of type \<open>error\<close>.
\<close>

datatype error = DimensionMismatch nat nat | BackendFailure | SpawnerFailure

text \<open>\<open>Signal\<close> of \<open>signal/signal.ts\<close>.\<close>

record signal =
  signal_id :: string
  thought :: string
  emittedBy :: string
  pheromone :: "real list"
  timestamp :: int
  inferredIntent :: "string option"
  inferredTags :: "string list option"

text \<open>\<open>ReceptorField\<close>: the patterns and the optional threshold.\<close>

record ReceptorField =
  patterns :: "string list"
  threshold :: "real option"

text \<open>
  The loop shared by both cosine functions: one pass over the indices, accumulating the dot
  product and the two squared norms.
\<close>

fun accumulate :: "real list \<Rightarrow> real list \<Rightarrow> real \<times> real \<times> real \<Rightarrow> real \<times> real \<times> real" where
  "accumulate (x # xs) (y # ys) (d, ma, mb) = accumulate xs ys (d + x * y, ma + x * x, mb + y * y)"
| "accumulate _ _ acc = acc"

text \<open>\<open>cosineSimilarity\<close> of \<open>signal/semantic-utils.ts\<close>: 0 for empty or unequal vectors.\<close>

definition cosineSimilarity :: "real list \<Rightarrow> real list \<Rightarrow> real" where
  "cosineSimilarity a b =
     (if length a = 0 \<or> length b = 0 \<or> length a \<noteq> length b then 0
      else (case accumulate a b (0, 0, 0) of (dotProduct, magnitudeA, magnitudeB) \<Rightarrow>
        let magnitude = sqrt magnitudeA * sqrt magnitudeB
        in if magnitude = 0 then 0 else dotProduct / magnitude))"

text \<open>The private \<open>cosineSimilarity\<close> of \<open>signal/signal.ts\<close>: unequal lengths throw.\<close>

definition cosineSimilarity_strict :: "real list \<Rightarrow> real list \<Rightarrow> error + real" where
  "cosineSimilarity_strict a b =
     (if length a \<noteq> length b then Inl (DimensionMismatch (length a) (length b))
      else (case accumulate a b (0, 0, 0) of (dotProduct, normA, normB) \<Rightarrow>
        let magnitude = sqrt normA * sqrt normB
        in if magnitude = 0 then Inr 0 else Inr (dotProduct / magnitude)))"

text \<open>\<open>resonates\<close> of \<open>signal/signal.ts\<close>; the default threshold is 0.6.\<close>

definition resonates :: "real list \<Rightarrow> ReceptorField \<Rightarrow> real list \<Rightarrow> error + bool" where
  "resonates signalPheromone field receptorFieldEmbedding =
     (let thr = (case threshold field of None \<Rightarrow> 6 / 10 | Some t \<Rightarrow> t)
      in case cosineSimilarity_strict signalPheromone receptorFieldEmbedding of
           Inl e \<Rightarrow> Inl e
         | Inr similarity \<Rightarrow> Inr (similarity > thr))"

section \<open>The language-model backend\<close>

text \<open>
  The backend is a collaborator: \<open>embed\<close> and \<open>chat\<close> are parameters, \<open>None\<close> when the call
  fails. A chat message is its role and its content. Every call made is appended to a log.
\<close>

type_synonym message = "string \<times> string"

record backend =
  embed :: "string \<Rightarrow> real list option"
  chat :: "message list \<Rightarrow> string option"

datatype backend_call = Embed string | Chat "message list"

text \<open>\<open>Array.prototype.join\<close>.\<close>

fun join :: "string \<Rightarrow> string list \<Rightarrow> string" where
  "join sep [] = []"
| "join sep [x] = x"
| "join sep (x # y # ys) = x @ sep @ join sep (y # ys)"

definition newline :: string where
  "newline = [CHR 0x0A]"

definition dquote :: string where
  "dquote = [CHR 0x22]"

section \<open>The synapse\<close>

text \<open>\<open>SynapticStrength\<close> of the synapse module.\<close>

record SynapticStrength =
  baseSimilarity :: real
  activations :: nat
  efficacy :: real
  confidence :: real
  conductionTime :: real
  lastFiring :: int

definition sigmoid :: "real \<Rightarrow> real" where
  "sigmoid x = 1 / (1 + exp (- x))"

definition calculateConfidence :: "nat \<Rightarrow> real \<Rightarrow> real" where
  "calculateConfidence acts eff =
     (if acts = 0 then 0 else sigmoid (ln (real acts + 1) - 2) * eff)"

text \<open>
  A synapse is the closure built by \<open>createSignalSynapse\<close>: its configuration, its strength
  and its memo table \<open>synapticMemory\<close> (source thought to transformed thought).
\<close>

record synapse =
  synapse_id :: string
  from_id :: string
  to_id :: string
  fromContext :: "string list"
  toContext :: "string list"
  strength :: SynapticStrength
  synapticMemory :: "string \<Rightarrow> string option"

text \<open>The arrow of the synapse id, U+2192, as its UTF-8 bytes.\<close>

definition arrow :: string where
  "arrow = [CHR 0xE2, CHR 0x86, CHR 0x92]"

definition createSignalSynapse ::
  "string \<Rightarrow> string \<Rightarrow> real \<Rightarrow> string list \<Rightarrow> string list \<Rightarrow> synapse" where
  "createSignalSynapse frm to baseSim fromCtx toCtx =
     \<lparr> synapse_id = frm @ arrow @ to, from_id = frm, to_id = to,
       fromContext = fromCtx, toContext = toCtx,
       strength = \<lparr> baseSimilarity = baseSim, activations = 0, efficacy = 1,
                    confidence = 0, conductionTime = 0, lastFiring = 0 \<rparr>,
       synapticMemory = (\<lambda>_. None) \<rparr>"

text \<open>The two messages \<open>transform\<close> sends to the backend on a memo miss.\<close>

definition transformMessages :: "synapse \<Rightarrow> signal \<Rightarrow> message list" where
  "transformMessages syn sg =
     [(''system'', join newline
         [''You adapt signals between agents with different vocabularies.'',
          '''',
          ''Source context: '' @ join '', '' (fromContext syn),
          ''Target context: '' @ join '', '' (toContext syn),
          '''',
          ''Reformulate to resonate with target while preserving meaning.'',
          ''Natural, concise (2-4 sentences).'']),
      (''user'', ''Transform: '' @ dquote @ thought sg @ dquote)]"

text \<open>
  \<open>transform\<close>. \<open>clock k\<close> is the k-th reading of \<open>Date.now()\<close> during the call. The memo test
  is JavaScript truthiness: an entry holding the empty string counts as a miss. The result is
  the returned signal, the synapse afterwards and the backend calls made.
\<close>

definition transform ::
  "backend \<Rightarrow> (nat \<Rightarrow> int) \<Rightarrow> synapse \<Rightarrow> signal \<Rightarrow> signal \<times> synapse \<times> backend_call list" where
  "transform llm clock syn sg =
     (let firingStart = clock 0; st = strength syn
      in case synapticMemory syn (thought sg) of
        Some (c # cs) \<Rightarrow>
          (let n = activations st + 1;
               st' = st\<lparr> activations := n, lastFiring := clock 1,
                         confidence := calculateConfidence n (efficacy st) \<rparr>
           in (sg\<lparr> thought := c # cs, emittedBy := from_id syn \<rparr>, syn\<lparr> strength := st' \<rparr>, []))
      | _ \<Rightarrow>
          (case chat llm (transformMessages syn sg) of
             Some transformed \<Rightarrow>
               (let firingTime = clock 1 - firingStart;
                    n = activations st + 1;
                    eff = (efficacy st * (real n - 1) + 1) / real n;
                    st' = st\<lparr> activations := n, efficacy := eff,
                              conductionTime :=
                                (conductionTime st * (real n - 1) + real_of_int firingTime) / real n,
                              lastFiring := clock 2,
                              confidence := calculateConfidence n eff \<rparr>
                in (sg\<lparr> thought := transformed, emittedBy := from_id syn \<rparr>,
                    syn\<lparr> strength := st',
                         synapticMemory := (synapticMemory syn)(thought sg \<mapsto> transformed) \<rparr>,
                    [Chat (transformMessages syn sg)]))
           | None \<Rightarrow>
               (let n = activations st + 1;
                    eff = (efficacy st * (real n - 1) + 0) / real n;
                    st' = st\<lparr> activations := n, efficacy := eff,
                              confidence := calculateConfidence n eff \<rparr>
                in (sg, syn\<lparr> strength := st' \<rparr>, [Chat (transformMessages syn sg)]))))"

definition getWeight :: "synapse \<Rightarrow> real" where
  "getWeight syn =
     (let potentiation = 1 + ln (real (activations (strength syn)) + 1)
      in baseSimilarity (strength syn) * potentiation * efficacy (strength syn))"

definition shouldPrune :: "synapse \<Rightarrow> int \<Rightarrow> int \<Rightarrow> bool" where
  "shouldPrune syn now pruneThreshold =
     (if activations (strength syn) = 0 then True
      else (let timeSinceLastFiring = now - lastFiring (strength syn); decayTime = pruneThreshold
            in timeSinceLastFiring > decayTime \<and> efficacy (strength syn) < 3 / 10))"

section \<open>The equilibrium detector\<close>

text \<open>
  \<open>Array.prototype.slice(start, end)\<close>: negative indices count from the end and are clamped;
  \<open>-0\<close> is \<open>0\<close>, so \<open>slice(-0)\<close> is the whole array.
\<close>

definition slice :: "int \<Rightarrow> int option \<Rightarrow> 'a list \<Rightarrow> 'a list" where
  "slice start fin xs =
     (let len = int (length xs);
          k = (if start < 0 then max (len + start) 0 else min start len);
          e = (case fin of None \<Rightarrow> len | Some e \<Rightarrow> e);
          final = (if e < 0 then max (len + e) 0 else min e len)
      in take (nat (final - k)) (drop (nat k) xs))"

text \<open>
  The result of a floating-point division whose divisor may be zero: a finite number, an
  infinity or \<open>NaN\<close>. Comparisons with \<open>NaN\<close> are false.
\<close>

datatype js_number = Finite real | PosInfinity | NegInfinity | NaN

definition js_divide :: "real \<Rightarrow> real \<Rightarrow> js_number" where
  "js_divide x y =
     (if y \<noteq> 0 then Finite (x / y)
      else if x > 0 then PosInfinity else if x < 0 then NegInfinity else NaN)"

text \<open>\<open>Math.abs(g) < c\<close> and \<open>Math.abs(g) >= c\<close> for a positive constant \<open>c\<close>.\<close>

fun abs_less :: "js_number \<Rightarrow> real \<Rightarrow> bool" where
  "abs_less (Finite g) c = (\<bar>g\<bar> < c)"
| "abs_less _ c = False"

fun abs_ge :: "js_number \<Rightarrow> real \<Rightarrow> bool" where
  "abs_ge (Finite g) c = (\<bar>g\<bar> \<ge> c)"
| "abs_ge NaN c = False"
| "abs_ge _ c = True"

text \<open>
  The text of \<open>reasoning\<close> is for observers only; its printed percentages are not modelled,
  only which of the messages is produced.
\<close>

datatype reasoning =
    InsufficientHistory
  | EarlyDialogue nat real
  | EquilibriumText
  | IssueText string bool

record EquilibriumState =
  atEquilibrium :: bool
  goalTension :: real
  momentum :: real
  coherence :: real
  decisionClarity :: real
  isStagnant :: bool
  reasoning :: reasoning

text \<open>An entry of \<open>stagnationHistory\<close>.\<close>

record stagnation_entry =
  h_tick :: nat
  h_tension :: real
  h_coherence :: real
  h_clarity :: real

text \<open>
  The detector object: the two configuration values \<open>detect\<close> reads (the four threshold
  options of the configuration are stored but never read) and its mutable state.
\<close>

record detector =
  minSignalWindow :: real
  minTicks :: real
  idealStateCache :: "string \<Rightarrow> real list option"
  currentTick :: nat
  stagnationHistory :: "stagnation_entry list"

definition signalWindowSize :: nat where
  "signalWindowSize = 10"

definition stagnationWindowSize :: nat where
  "stagnationWindowSize = 5"

text \<open>The constructor; the defaults of both options are 5.\<close>

definition new_detector :: "real option \<Rightarrow> real option \<Rightarrow> detector" where
  "new_detector msw mt =
     \<lparr> minSignalWindow = (case msw of None \<Rightarrow> 5 | Some w \<Rightarrow> w),
       minTicks = (case mt of None \<Rightarrow> 5 | Some t \<Rightarrow> t),
       idealStateCache = (\<lambda>_. None), currentTick = 0, stagnationHistory = [] \<rparr>"

definition calculateEnergy :: "real \<Rightarrow> real \<Rightarrow> real \<Rightarrow> real \<Rightarrow> real" where
  "calculateEnergy tension mom coh clarity =
     (let w_tension = 4 / 10; w_momentum = 1 / 10; w_coherence = 3 / 10; w_clarity = 2 / 10;
          energy = w_tension * tension + w_momentum * mom + w_coherence * (1 - coh)
                   + w_clarity * (1 - clarity)
      in max 0 (min 1 energy))"

text \<open>
  \<open>measureCoherence\<close>: the double loop over the pairs \<open>i < j\<close>, then the mean, clamped. Every
  signal carries a pheromone, so the loop's skip of a pair without one never applies.
\<close>

fun coherence_inner :: "signal \<Rightarrow> signal list \<Rightarrow> real \<times> nat \<Rightarrow> real \<times> nat" where
  "coherence_inner x [] acc = acc"
| "coherence_inner x (y # ys) (totalSimilarity, pairCount) =
     coherence_inner x ys
       (totalSimilarity + cosineSimilarity (pheromone x) (pheromone y), pairCount + 1)"

fun coherence_outer :: "signal list \<Rightarrow> real \<times> nat \<Rightarrow> real \<times> nat" where
  "coherence_outer [] acc = acc"
| "coherence_outer (x # xs) acc = coherence_outer xs (coherence_inner x xs acc)"

definition measureCoherence :: "signal list \<Rightarrow> real" where
  "measureCoherence recentSignals =
     (if length recentSignals < 2 then 0
      else (case coherence_outer recentSignals (0, 0) of (totalSimilarity, pairCount) \<Rightarrow>
        let avgCoherence = (if pairCount > 0 then totalSimilarity / real pairCount else 0)
        in max 0 (min 1 avgCoherence)))"

definition calculateEnergyGradient :: "real \<Rightarrow> signal list \<Rightarrow> js_number" where
  "calculateEnergyGradient msw signals =
     (if real (length signals) < msw * 2 then Finite 1
      else let windowSize = length signals div 3;
               recentSignals = slice (- int windowSize) None signals;
               previousSignals = slice (- int windowSize * 2) (Some (- int windowSize)) signals;
               recentCoherence = measureCoherence recentSignals;
               previousCoherence = measureCoherence previousSignals;
               energyRecent = 1 - recentCoherence;
               energyPrevious = 1 - previousCoherence
           in js_divide (energyRecent - energyPrevious) (real windowSize))"

definition measureMomentum :: "real \<Rightarrow> signal list \<Rightarrow> signal list \<Rightarrow> real" where
  "measureMomentum msw allSignals recentSignals =
     (if real (length allSignals) < msw * 2 then 1
      else let windowSize = length allSignals div 2;
               recentWindow = slice (- int windowSize) None allSignals;
               previousWindow = slice (- int windowSize * 2) (Some (- int windowSize)) allSignals;
               recentCount = length recentWindow;
               previousCount = length previousWindow;
               rawMomentum = (if previousCount > 0 then real recentCount / real previousCount else 1);
               mom = min rawMomentum 2 / 2
           in max 0 (min 1 mom))"

text \<open>The prompt of \<open>extractIdealState\<close>.\<close>

definition idealStateMessages :: "string \<Rightarrow> message list" where
  "idealStateMessages scenario =
     [(''system'', join newline
         [''You extract the IDEAL END STATE from a scenario.'',
          '''',
          ''Given a problem/scenario, describe what a SATISFIED state looks like:'',
          ''- What would it mean for this problem to be '' @ dquote @ ''resolved'' @ dquote @ ''?'',
          ''- What outcome would reduce the tension to zero?'',
          ''- What does '' @ dquote @ ''finished thinking'' @ dquote @ '' look like?'',
          '''',
          ''Be specific but concise (1-2 sentences).'']),
      (''user'', ''Scenario: '' @ scenario @ newline @ newline
                 @ ''What is the ideal end state that would satisfy this problem?'')]"

text \<open>
  \<open>extractIdealState\<close>. On a cache hit the cached vector is fetched and not used, and the
  scenario itself is returned; on a miss the backend's answer is embedded, the embedding is
  stored under the scenario, and the answer is returned.
\<close>

definition extractIdealState ::
  "backend \<Rightarrow> string \<Rightarrow> detector \<Rightarrow> (error + string) \<times> detector \<times> backend_call list" where
  "extractIdealState llm scenario d =
     (case idealStateCache d scenario of
        Some cached \<Rightarrow> (Inr scenario, d, [])
      | None \<Rightarrow>
          (case chat llm (idealStateMessages scenario) of
             None \<Rightarrow> (Inl BackendFailure, d, [Chat (idealStateMessages scenario)])
           | Some response \<Rightarrow>
               (case embed llm response of
                  None \<Rightarrow>
                    (Inl BackendFailure, d, [Chat (idealStateMessages scenario), Embed response])
                | Some embedding \<Rightarrow>
                    (Inr response,
                     d\<lparr> idealStateCache := (idealStateCache d)(scenario \<mapsto> embedding) \<rparr>,
                     [Chat (idealStateMessages scenario), Embed response]))))"

definition measureGoalTension ::
  "backend \<Rightarrow> string \<Rightarrow> signal list \<Rightarrow> (error + real) \<times> backend_call list" where
  "measureGoalTension llm idealState recentSignals =
     (if length recentSignals = 0 then (Inr 1, [])
      else (case embed llm idealState of
          None \<Rightarrow> (Inl BackendFailure, [Embed idealState])
        | Some idealEmbedding \<Rightarrow>
            (let currentStateText = join '' '' (map thought recentSignals)
             in case embed llm currentStateText of
                  None \<Rightarrow> (Inl BackendFailure, [Embed idealState, Embed currentStateText])
                | Some currentEmbedding \<Rightarrow>
                    (let similarity = cosineSimilarity idealEmbedding currentEmbedding;
                         tension = 1 - similarity
                     in (Inr (max 0 (min 1 tension)),
                         [Embed idealState, Embed currentStateText])))))"

definition decisionAnchors :: "string list" where
  "decisionAnchors =
     [''We have made a final decision and will proceed with this course of action'',
      ''The conclusion is clear and we agree on the path forward'',
      ''After careful consideration, we have reached a definitive resolution'',
      ''The plan is settled and we know exactly what to do next'']"

text \<open>
  \<open>Promise.all\<close> over already started calls: every call is made; the result is the list of
  answers, or a failure if one of them failed.
\<close>

fun all_results :: "'a option list \<Rightarrow> 'a list option" where
  "all_results [] = Some []"
| "all_results (None # rs) = None"
| "all_results (Some v # rs) = (case all_results rs of None \<Rightarrow> None | Some vs \<Rightarrow> Some (v # vs))"

text \<open>The double loop of \<open>measureDecisionClarity\<close>, keeping the maximum.\<close>

fun clarity_inner :: "signal \<Rightarrow> real list list \<Rightarrow> real \<Rightarrow> real" where
  "clarity_inner sg [] maxClarity = maxClarity"
| "clarity_inner sg (anchorEmb # rest) maxClarity =
     clarity_inner sg rest (max maxClarity (cosineSimilarity (pheromone sg) anchorEmb))"

fun clarity_outer :: "signal list \<Rightarrow> real list list \<Rightarrow> real \<Rightarrow> real" where
  "clarity_outer [] anchorEmbeddings maxClarity = maxClarity"
| "clarity_outer (sg # sgs) anchorEmbeddings maxClarity =
     clarity_outer sgs anchorEmbeddings (clarity_inner sg anchorEmbeddings maxClarity)"

definition measureDecisionClarity ::
  "backend \<Rightarrow> signal list \<Rightarrow> (error + real) \<times> backend_call list" where
  "measureDecisionClarity llm recentSignals =
     (if length recentSignals = 0 then (Inr 0, [])
      else (case all_results (map (embed llm) decisionAnchors) of
          None \<Rightarrow> (Inl BackendFailure, map Embed decisionAnchors)
        | Some anchorEmbeddings \<Rightarrow>
            (Inr (clarity_outer recentSignals anchorEmbeddings 0), map Embed decisionAnchors)))"

definition detectStagnation :: "detector \<Rightarrow> bool" where
  "detectStagnation d =
     (if length (stagnationHistory d) < stagnationWindowSize then False
      else let recentHistory = slice (- int stagnationWindowSize) None (stagnationHistory d);
               allHighTension = list_all (\<lambda>h. h_tension h > 7 / 10) recentHistory;
               allLowCoherence = list_all (\<lambda>h. h_coherence h < 3 / 10) recentHistory;
               allLowClarity = list_all (\<lambda>h. h_clarity h < 3 / 10) recentHistory
           in allHighTension \<and> (allLowCoherence \<or> allLowClarity))"

definition explainState :: "real \<Rightarrow> js_number \<Rightarrow> bool \<Rightarrow> bool \<Rightarrow> reasoning" where
  "explainState energy gradient atEq stagnant =
     (if atEq then EquilibriumText
      else IssueText
             (if abs_ge gradient (1 / 10) then ''system converging''
              else if energy \<ge> 35 / 100 then ''energy too high'' else ''stabilizing'')
             stagnant)"

text \<open>The report of both guards of \<open>detect\<close>.\<close>

definition notReady :: "reasoning \<Rightarrow> EquilibriumState" where
  "notReady why =
     \<lparr> atEquilibrium = False, goalTension = 1, momentum = 1, coherence = 0,
       decisionClarity = 0, isStagnant = False, reasoning = why \<rparr>"

text \<open>
  \<open>detect\<close>: the report or the failure, the detector afterwards, and the backend calls made,
  in order. The parameter \<open>agents\<close> of the source is never read and is left out.
\<close>

definition detect ::
  "backend \<Rightarrow> string \<Rightarrow> signal list \<Rightarrow> detector
     \<Rightarrow> (error + EquilibriumState) \<times> detector \<times> backend_call list" where
  "detect llm scenario signals d0 =
     (let d = d0\<lparr> currentTick := currentTick d0 + 1 \<rparr>
      in if real (length signals) < minSignalWindow d then (Inr (notReady InsufficientHistory), d, [])
      else if real (currentTick d) < minTicks d
           then (Inr (notReady (EarlyDialogue (currentTick d) (minTicks d))), d, [])
      else (case extractIdealState llm scenario d of
          (Inl e, d1, calls1) \<Rightarrow> (Inl e, d1, calls1)
        | (Inr idealState, d1, calls1) \<Rightarrow>
            (let recentSignals = slice (- int signalWindowSize) None signals
             in case measureGoalTension llm idealState recentSignals of
                (Inl e, calls2) \<Rightarrow> (Inl e, d1, calls1 @ calls2)
              | (Inr tension, calls2) \<Rightarrow>
                  (let mom = measureMomentum (minSignalWindow d1) signals recentSignals;
                       coh = measureCoherence recentSignals
                   in case measureDecisionClarity llm recentSignals of
                      (Inl e, calls3) \<Rightarrow> (Inl e, d1, calls1 @ calls2 @ calls3)
                    | (Inr clarity, calls3) \<Rightarrow>
                        (let energy = calculateEnergy tension mom coh clarity;
                             energyGradient = calculateEnergyGradient (minSignalWindow d1) signals;
                             energyThreshold = 35 / 100;
                             gradientThreshold = 1 / 10;
                             atEq = (energy < energyThreshold
                                     \<and> abs_less energyGradient gradientThreshold);
                             pushed = stagnationHistory d1 @
                               [\<lparr> h_tick = currentTick d1, h_tension = tension,
                                  h_coherence = coh, h_clarity = clarity \<rparr>];
                             kept = (if length pushed > stagnationWindowSize then tl pushed
                                     else pushed);
                             d2 = d1\<lparr> stagnationHistory := kept \<rparr>;
                             stagnant = detectStagnation d2
                         in (Inr \<lparr> atEquilibrium = atEq, goalTension = tension, momentum = mom,
                                   coherence = coh, decisionClarity = clarity,
                                   isStagnant = stagnant,
                                   reasoning = explainState energy energyGradient atEq stagnant \<rparr>,
                             d2, calls1 @ calls2 @ calls3))))))"

section \<open>The router\<close>

text \<open>
  An agent as the router sees it: its id, its name and its receptor field. What an agent does
  with a perceived signal is its own business; the router's calls of \<open>perceive\<close> are recorded
  in the log \<open>perceived\<close> of the router state.
\<close>

record agent =
  agent_id :: string
  agent_name :: string
  receptorField :: ReceptorField

record BridgeAgentSpec =
  spec_id :: string
  spec_name :: string
  receptor_patterns :: "string list"
  spec_threshold :: "real option"
  voice :: "string option"

text \<open>
  The optional operations of the spawner that the modelled paths call. An operation answers
  \<open>None\<close> when it throws.
\<close>

record spawner =
  seedFromGoal_op :: "(string \<Rightarrow> agent list \<Rightarrow> agent list option) option"
  spawnBridgeAgent_op ::
    "(BridgeAgentSpec \<Rightarrow> signal \<Rightarrow> agent \<Rightarrow> agent \<Rightarrow> agent list \<Rightarrow> agent option option) option"

text \<open>
  The configuration. The prompt of \<open>spawnBridgeAgent\<close> and the reading of the backend's answer
  (extraction of the fenced block, \<open>JSON.parse\<close> and the check of \<open>id\<close> and
  \<open>receptor_patterns\<close>; \<open>None\<close> when this throws or the check fails) are parameters.
\<close>

record config =
  llm :: backend
  spawner :: "spawner option"
  bridgeMessages :: "signal \<Rightarrow> agent \<Rightarrow> agent \<Rightarrow> message list"
  parseBridgeSpec :: "string \<Rightarrow> BridgeAgentSpec option"

text \<open>
  A JavaScript \<open>Map\<close> keeps its entries in insertion order: \<open>set\<close> on a present key replaces
  the value in place, on an absent key it appends; \<open>delete\<close> removes the entry.
\<close>

fun map_set :: "'k \<Rightarrow> 'v \<Rightarrow> ('k \<times> 'v) list \<Rightarrow> ('k \<times> 'v) list" where
  "map_set k v [] = [(k, v)]"
| "map_set k v ((k', v') # m) = (if k' = k then (k, v) # m else (k', v') # map_set k v m)"

fun map_delete :: "'k \<Rightarrow> ('k \<times> 'v) list \<Rightarrow> ('k \<times> 'v) list" where
  "map_delete k [] = []"
| "map_delete k ((k', v') # m) = (if k' = k then map_delete k m else (k', v') # map_delete k m)"

definition map_has :: "'k \<Rightarrow> ('k \<times> 'v) list \<Rightarrow> bool" where
  "map_has k m = (map_of m k \<noteq> None)"

text \<open>
  The router state. \<open>birthQueue\<close> holds the births that were begun and not yet awaited;
  \<open>perceived\<close> and \<open>calls\<close> log the calls of \<open>perceive\<close> and of the backend.
\<close>

record biosphere =
  agents :: "(string \<times> agent) list"
  signalHistory :: "signal list"
  receptorFieldCache :: "(string \<times> real list) list"
  synapses :: "(string \<times> synapse) list"
  birthQueue :: "agent list"
  seeded :: bool
  tick :: nat
  perceived :: "(string \<times> signal) list"
  calls :: "backend_call list"

definition listAgents :: "biosphere \<Rightarrow> agent list" where
  "listAgents s = map snd (agents s)"

definition perceive :: "agent \<Rightarrow> signal \<Rightarrow> biosphere \<Rightarrow> biosphere" where
  "perceive receiver sg s = s\<lparr> perceived := perceived s @ [(agent_id receiver, sg)] \<rparr>"

definition receptorText :: "agent \<Rightarrow> string" where
  "receptorText a = join ''. '' (patterns (receptorField a))"

text \<open>
  \<open>birth\<close> up to its \<open>await\<close>: the agent is registered and the embedding is requested.
\<close>

definition birth_begin :: "agent \<Rightarrow> biosphere \<Rightarrow> biosphere" where
  "birth_begin a s =
     s\<lparr> agents := map_set (agent_id a) a (agents s), calls := calls s @ [Embed (receptorText a)] \<rparr>"

text \<open>\<open>birth\<close> after its \<open>await\<close>: the embedding is cached, or the failure is thrown.\<close>

definition birth_complete :: "backend \<Rightarrow> agent \<Rightarrow> biosphere \<Rightarrow> (error + unit) \<times> biosphere" where
  "birth_complete be a s =
     (case embed be (receptorText a) of
        None \<Rightarrow> (Inl BackendFailure, s)
      | Some receptorVector \<Rightarrow>
          (Inr (), s\<lparr> receptorFieldCache := map_set (agent_id a) receptorVector (receptorFieldCache s) \<rparr>))"

definition birth :: "backend \<Rightarrow> agent \<Rightarrow> biosphere \<Rightarrow> (error + unit) \<times> biosphere" where
  "birth be a s = birth_complete be a (birth_begin a s)"

definition death :: "string \<Rightarrow> biosphere \<Rightarrow> biosphere" where
  "death agentId s =
     s\<lparr> agents := map_delete agentId (agents s),
        receptorFieldCache := map_delete agentId (receptorFieldCache s) \<rparr>"

text \<open>
  \<open>flushBirthQueue\<close>: the queue is emptied and every pending birth is awaited; the first
  failure is thrown once all have settled.
\<close>

fun complete_all :: "backend \<Rightarrow> agent list \<Rightarrow> biosphere \<Rightarrow> (error + unit) \<times> biosphere" where
  "complete_all be [] s = (Inr (), s)"
| "complete_all be (a # as) s =
     (case birth_complete be a s of
        (r, s1) \<Rightarrow> (case complete_all be as s1 of
           (r', s2) \<Rightarrow> ((case r of Inl e \<Rightarrow> Inl e | Inr u \<Rightarrow> r'), s2)))"

definition flushBirthQueue :: "backend \<Rightarrow> biosphere \<Rightarrow> (error + unit) \<times> biosphere" where
  "flushBirthQueue be s =
     (if length (birthQueue s) = 0 then (Inr (), s)
      else complete_all be (birthQueue s) (s\<lparr> birthQueue := [] \<rparr>))"

text \<open>The loop of \<open>seedFromGoal\<close>: each proposed agent's birth is begun and queued.\<close>

fun queue_births :: "agent list \<Rightarrow> biosphere \<Rightarrow> biosphere" where
  "queue_births [] s = s"
| "queue_births (a # as) s =
     queue_births as ((birth_begin a s)\<lparr> birthQueue := birthQueue s @ [a] \<rparr>)"

definition seedFromGoal :: "config \<Rightarrow> string \<Rightarrow> biosphere \<Rightarrow> (error + unit) \<times> biosphere" where
  "seedFromGoal cfg goal s =
     (case spawner cfg of
        None \<Rightarrow> (Inr (), s)
      | Some sp \<Rightarrow>
          (case seedFromGoal_op sp of
             None \<Rightarrow> (Inr (), s)
           | Some propose \<Rightarrow>
               (case propose goal (listAgents s) of
                  None \<Rightarrow> (Inl SpawnerFailure, s)
                | Some proposed \<Rightarrow>
                    (case flushBirthQueue (llm cfg) (queue_births proposed s) of
                       (Inl e, s1) \<Rightarrow> (Inl e, s1)
                     | (Inr u, s1) \<Rightarrow> (Inr (), s1\<lparr> seeded := True \<rparr>)))))"

text \<open>
  \<open>findResonance\<close>. First loop: every other agent with a cached vector that resonates. If
  there is none, ambient awareness: the other agents with similarity above 0.4, sorted by
  descending similarity (the sort is stable), at most three.
\<close>

fun resonance_loop ::
  "signal \<Rightarrow> (string \<times> real list) list \<Rightarrow> agent list \<Rightarrow> agent list \<Rightarrow> error + agent list" where
  "resonance_loop sg cache [] receivers = Inr receivers"
| "resonance_loop sg cache (a # as) receivers =
     (if agent_id a = emittedBy sg then resonance_loop sg cache as receivers
      else (case map_of cache (agent_id a) of
          None \<Rightarrow> resonance_loop sg cache as receivers
        | Some receptorVector \<Rightarrow>
            (case resonates (pheromone sg) (receptorField a) receptorVector of
               Inl e \<Rightarrow> Inl e
             | Inr r \<Rightarrow> resonance_loop sg cache as (if r then receivers @ [a] else receivers))))"

fun ambient_loop ::
  "signal \<Rightarrow> (string \<times> real list) list \<Rightarrow> agent list \<Rightarrow> (agent \<times> real) list \<Rightarrow> (agent \<times> real) list" where
  "ambient_loop sg cache [] candidates = candidates"
| "ambient_loop sg cache (a # as) candidates =
     (if agent_id a = emittedBy sg then ambient_loop sg cache as candidates
      else (case map_of cache (agent_id a) of
          None \<Rightarrow> ambient_loop sg cache as candidates
        | Some receptorVector \<Rightarrow>
            (let similarity = cosineSimilarity (pheromone sg) receptorVector
             in ambient_loop sg cache as
                  (if similarity > 4 / 10 then candidates @ [(a, similarity)] else candidates))))"

definition findResonance :: "biosphere \<Rightarrow> signal \<Rightarrow> error + agent list" where
  "findResonance s sg =
     (case resonance_loop sg (receptorFieldCache s) (listAgents s) [] of
        Inl e \<Rightarrow> Inl e
      | Inr receivers \<Rightarrow>
          (if length receivers = 0
           then (let ambientThreshold = 4 / 10 :: real; maxAmbientReceivers = 3 :: nat;
                     candidates = ambient_loop sg (receptorFieldCache s) (listAgents s) []
                 in Inr (map fst (take maxAmbientReceivers (sort_key (\<lambda>c. - snd c) candidates))))
           else Inr receivers))"

text \<open>
  \<open>createSignal\<close> with the pheromone added; the fresh id and the clock reading are inputs.
\<close>

definition createSignal :: "string \<times> int \<Rightarrow> string \<Rightarrow> string \<Rightarrow> real list \<Rightarrow> signal" where
  "createSignal fresh th author ph =
     \<lparr> signal_id = fst fresh, thought = th, emittedBy = author, pheromone = ph,
       timestamp = snd fresh, inferredIntent = None, inferredTags = None \<rparr>"

text \<open>The loop that delivers a signal to each receiver in turn.\<close>

fun perceive_all :: "agent list \<Rightarrow> signal \<Rightarrow> biosphere \<Rightarrow> biosphere" where
  "perceive_all [] sg s = s"
| "perceive_all (r # rs) sg s = perceive_all rs sg (perceive r sg s)"

text \<open>\<open>inject\<close>; a missing \<open>sourceId\<close> is \<open>external\<close>.\<close>

definition inject ::
  "config \<Rightarrow> string \<times> int \<Rightarrow> string \<Rightarrow> string option \<Rightarrow> biosphere \<Rightarrow> (error + unit) \<times> biosphere" where
  "inject cfg fresh th src s0 =
     (let sourceId = (case src of None \<Rightarrow> ''external'' | Some i \<Rightarrow> i)
      in case flushBirthQueue (llm cfg) s0 of
        (Inl e, s1) \<Rightarrow> (Inl e, s1)
      | (Inr u, s1) \<Rightarrow>
          (case (if \<not> seeded s1 \<and> spawner cfg \<noteq> None then seedFromGoal cfg th s1 else (Inr (), s1)) of
             (Inl e, s2) \<Rightarrow> (Inl e, s2)
           | (Inr u, s2) \<Rightarrow>
               (let s3 = s2\<lparr> calls := calls s2 @ [Embed th] \<rparr>
                in case embed (llm cfg) th of
                  None \<Rightarrow> (Inl BackendFailure, s3)
                | Some ph \<Rightarrow>
                    (let sg = createSignal fresh th sourceId ph;
                         s4 = s3\<lparr> signalHistory := signalHistory s3 @ [sg] \<rparr>
                     in case findResonance s4 sg of
                       Inl e \<Rightarrow> (Inl e, s4)
                     | Inr found \<Rightarrow>
                         (let isExternal = (sourceId = ''external'' \<or> sourceId = ''system'');
                              receivers =
                                (if isExternal \<or> length found = 0
                                 then filter (\<lambda>a. agent_id a \<noteq> sourceId) (listAgents s4)
                                 else found)
                          in (Inr (), perceive_all receivers sg s4))))))"

text \<open>\<open>getOrCreateSynapse\<close>: the key, the synapse and the state with the table updated.\<close>

definition getOrCreateSynapse ::
  "agent \<Rightarrow> agent \<Rightarrow> real \<Rightarrow> biosphere \<Rightarrow> string \<times> synapse \<times> biosphere" where
  "getOrCreateSynapse frm to similarity s =
     (let synapseId = agent_id frm @ arrow @ agent_id to
      in case map_of (synapses s) synapseId of
           Some syn \<Rightarrow> (synapseId, syn, s)
         | None \<Rightarrow>
             (let syn = createSignalSynapse (agent_id frm) (agent_id to) similarity
                          (patterns (receptorField frm)) (patterns (receptorField to))
              in (synapseId, syn, s\<lparr> synapses := map_set synapseId syn (synapses s) \<rparr>)))"

text \<open>
  \<open>findSimilar\<close>: the name is embedded, then each agent's description; the best agent above
  0.75 is returned. A failed embedding is thrown. The calls made are returned with the result.
\<close>

fun findSimilar_loop ::
  "backend \<Rightarrow> real list \<Rightarrow> agent list \<Rightarrow> agent option \<times> real \<Rightarrow> backend_call list
     \<Rightarrow> (error + agent option) \<times> backend_call list" where
  "findSimilar_loop be targetVector [] (bestMatch, bestSimilarity) made = (Inr bestMatch, made)"
| "findSimilar_loop be targetVector (a # as) (bestMatch, bestSimilarity) made =
     (let agentDescription = agent_name a @ '' '' @ join '' '' (patterns (receptorField a))
      in case embed be agentDescription of
           None \<Rightarrow> (Inl BackendFailure, made @ [Embed agentDescription])
         | Some agentVector \<Rightarrow>
             (let similarity = cosineSimilarity targetVector agentVector
              in findSimilar_loop be targetVector as
                   (if similarity > 75 / 100 \<and> similarity > bestSimilarity
                    then (Some a, similarity) else (bestMatch, bestSimilarity))
                   (made @ [Embed agentDescription])))"

definition findSimilar ::
  "backend \<Rightarrow> string \<Rightarrow> biosphere \<Rightarrow> (error + agent option) \<times> biosphere" where
  "findSimilar be nm s =
     (case embed be nm of
        None \<Rightarrow> (Inl BackendFailure, s\<lparr> calls := calls s @ [Embed nm] \<rparr>)
      | Some targetVector \<Rightarrow>
          (case findSimilar_loop be targetVector (listAgents s) (None, 0) [Embed nm] of
             (r, made) \<Rightarrow> (r, s\<lparr> calls := calls s @ made \<rparr>)))"

text \<open>The agent \<open>defineOrganicAgent\<close> builds from a blueprint; the default threshold is 0.5.\<close>

definition bridgeFromBlueprint :: "BridgeAgentSpec \<Rightarrow> agent" where
  "bridgeFromBlueprint blueprint =
     \<lparr> agent_id = spec_id blueprint, agent_name = spec_name blueprint,
       receptorField =
         \<lparr> patterns = receptor_patterns blueprint,
           threshold = Some (case spec_threshold blueprint of None \<Rightarrow> 5 / 10 | Some t \<Rightarrow> t) \<rparr> \<rparr>"

text \<open>
  \<open>spawnBridgeAgent\<close>. Without a spawner nothing happens. The chat call is outside the
  \<open>try\<close> block, so its failure is thrown; every later failure is caught and ends the attempt.
  On success the bridge is born and perceives the original signal.
\<close>

definition spawnBridgeAgent ::
  "config \<Rightarrow> signal \<Rightarrow> agent \<Rightarrow> agent \<Rightarrow> real \<Rightarrow> biosphere \<Rightarrow> (error + unit) \<times> biosphere" where
  "spawnBridgeAgent cfg sg source target similarity s =
     (case spawner cfg of
        None \<Rightarrow> (Inr (), s)
      | Some sp \<Rightarrow>
          (let s1 = s\<lparr> calls := calls s @ [Chat (bridgeMessages cfg sg source target)] \<rparr>
           in case chat (llm cfg) (bridgeMessages cfg sg source target) of
             None \<Rightarrow> (Inl BackendFailure, s1)
           | Some bridgeSpec \<Rightarrow>
               (case parseBridgeSpec cfg bridgeSpec of
                  None \<Rightarrow> (Inr (), s1)
                | Some blueprint \<Rightarrow>
                    (case findSimilar (llm cfg) (spec_name blueprint) s1 of
                       (Inl e, s2) \<Rightarrow> (Inr (), s2)
                     | (Inr (Some existing), s2) \<Rightarrow> (Inr (), s2)
                     | (Inr None, s2) \<Rightarrow>
                         (case (case spawnBridgeAgent_op sp of
                                  Some materialize \<Rightarrow>
                                    materialize blueprint sg source target (listAgents s2)
                                | None \<Rightarrow> Some (Some (bridgeFromBlueprint blueprint))) of
                            None \<Rightarrow> (Inr (), s2)
                          | Some None \<Rightarrow> (Inr (), s2)
                          | Some (Some bridge) \<Rightarrow>
                              (if map_has (agent_id bridge) (agents s2) then (Inr (), s2)
                               else (case birth (llm cfg) bridge s2 of
                                   (Inl e, s3) \<Rightarrow> (Inr (), s3)
                                 | (Inr u, s3) \<Rightarrow> (Inr (), perceive bridge sg s3))))))))"

text \<open>
  \<open>propagateToReceiver\<close>. The synapse object is mutated by its \<open>transform\<close>; here the
  transformed synapse is written back under its key.
\<close>

definition propagateToReceiver ::
  "config \<Rightarrow> (nat \<Rightarrow> int) \<Rightarrow> signal \<Rightarrow> agent \<Rightarrow> agent \<Rightarrow> biosphere \<Rightarrow> (error + unit) \<times> biosphere" where
  "propagateToReceiver cfg clock sg source receiver s =
     (case map_of (receptorFieldCache s) (agent_id receiver) of
        None \<Rightarrow> (Inr (), s)
      | Some receiverVector \<Rightarrow>
          (let similarity = cosineSimilarity (pheromone sg) receiverVector
           in if similarity > 8 / 10 then (Inr (), perceive receiver sg s)
              else if similarity > 5 / 10
              then (case getOrCreateSynapse source receiver similarity s of
                  (synapseId, syn, s1) \<Rightarrow>
                    (case transform (llm cfg) clock syn sg of
                       (transformed, syn', made) \<Rightarrow>
                         (Inr (),
                          perceive receiver transformed
                            (s1\<lparr> synapses := map_set synapseId syn' (synapses s1),
                                 calls := calls s1 @ made \<rparr>))))
              else if similarity > 3 / 10
              then spawnBridgeAgent cfg sg source receiver similarity s
              else (Inr (), s)))"

section \<open>Concrete inputs\<close>

text \<open>
  Small runs of the definitions above, used below to instantiate the theorems. The clock
  advances by one millisecond per reading.
\<close>

definition ex_clock :: "nat \<Rightarrow> int" where
  "ex_clock k = int k"

definition ex_hello :: signal where
  "ex_hello = \<lparr> signal_id = ''s1'', thought = ''hello'', emittedBy = ''a'', pheromone = [1, 0],
                timestamp = 0, inferredIntent = None, inferredTags = None \<rparr>"

definition ex_other :: signal where
  "ex_other = ex_hello\<lparr> thought := ''other'' \<rparr>"

text \<open>A backend whose chat rephrases \<open>hello\<close> as \<open>hi\<close> and fails on every other request.\<close>

definition ex_chat_backend :: backend where
  "ex_chat_backend =
     \<lparr> embed = (\<lambda>t. Some [1, 0]),
       chat = (\<lambda>ms. if snd (last ms) = ''Transform: '' @ dquote @ ''hello'' @ dquote
                     then Some ''hi'' else None) \<rparr>"

text \<open>
  A fresh synapse; then after a successful transform of \<open>hello\<close>, after a failed transform of
  \<open>other\<close>, and after a second transform of \<open>hello\<close>, which is a memo hit.
\<close>

definition ex_syn0 :: synapse where
  "ex_syn0 = createSignalSynapse ''a'' ''b'' (6 / 10) [''x''] [''y'']"

definition ex_syn1 :: synapse where
  "ex_syn1 = fst (snd (transform ex_chat_backend ex_clock ex_syn0 ex_hello))"

definition ex_syn2 :: synapse where
  "ex_syn2 = fst (snd (transform ex_chat_backend ex_clock ex_syn1 ex_other))"

definition ex_syn3 :: synapse where
  "ex_syn3 = fst (snd (transform ex_chat_backend ex_clock ex_syn2 ex_hello))"

text \<open>A fresh synapse after one and after two failed transforms.\<close>

definition ex_failed1 :: synapse where
  "ex_failed1 = fst (snd (transform ex_chat_backend ex_clock ex_syn0 ex_other))"

definition ex_failed2 :: synapse where
  "ex_failed2 = fst (snd (transform ex_chat_backend ex_clock ex_failed1 ex_other))"

text \<open>
  A detector with both minimums set to 1, one signal, and a backend that answers every
  request; the detector is invoked twice with the same scenario.
\<close>

definition ex_backend :: backend where
  "ex_backend = \<lparr> embed = (\<lambda>t. Some [1]), chat = (\<lambda>ms. Some ''resolved'') \<rparr>"

definition ex_signal :: signal where
  "ex_signal = \<lparr> signal_id = ''s1'', thought = ''hello'', emittedBy = ''a'', pheromone = [1],
                 timestamp = 0, inferredIntent = None, inferredTags = None \<rparr>"

definition ex_first :: "(error + EquilibriumState) \<times> detector \<times> backend_call list" where
  "ex_first = detect ex_backend ''goal'' [ex_signal] (new_detector (Some 1) (Some 1))"

definition ex_second :: "(error + EquilibriumState) \<times> detector \<times> backend_call list" where
  "ex_second = detect ex_backend ''goal'' [ex_signal] (fst (snd ex_first))"

text \<open>
  A deadlocked run: the only signal is orthogonal to everything the backend embeds, so every
  invocation measures tension 1, coherence 0 and clarity 0.
\<close>

definition ex_split_backend :: backend where
  "ex_split_backend =
     \<lparr> embed = (\<lambda>t. if t = ''hello'' then Some [0, 1] else Some [1, 0]),
       chat = (\<lambda>ms. Some ''resolved'') \<rparr>"

definition ex_orthogonal :: signal where
  "ex_orthogonal = ex_hello\<lparr> pheromone := [0, 1] \<rparr>"

primrec ex_detector_after :: "nat \<Rightarrow> detector" where
  "ex_detector_after 0 = new_detector (Some 1) (Some 1)"
| "ex_detector_after (Suc n) =
     fst (snd (detect ex_split_backend ''goal'' [ex_orthogonal] (ex_detector_after n)))"

definition ex_entry :: "nat \<Rightarrow> stagnation_entry" where
  "ex_entry k = \<lparr> h_tick = k, h_tension = 1, h_coherence = 0, h_clarity = 0 \<rparr>"

definition ex_stuck :: "nat \<Rightarrow> stagnation_entry list \<Rightarrow> detector" where
  "ex_stuck k hs = \<lparr> minSignalWindow = 1, minTicks = 1, idealStateCache = [''goal'' \<mapsto> [1, 0]],
                     currentTick = k, stagnationHistory = hs \<rparr>"

text \<open>A router with three agents and no spawner.\<close>

definition ex_agent :: "string \<Rightarrow> agent" where
  "ex_agent i = \<lparr> agent_id = i, agent_name = i,
                  receptorField = \<lparr> patterns = [i], threshold = None \<rparr> \<rparr>"

definition ex_config :: config where
  "ex_config = \<lparr> llm = ex_chat_backend, spawner = None,
                 bridgeMessages = (\<lambda>sg source target. []), parseBridgeSpec = (\<lambda>answer. None) \<rparr>"

definition ex_world :: biosphere where
  "ex_world =
     \<lparr> agents = [(''a'', ex_agent ''a''), (''b'', ex_agent ''b''), (''c'', ex_agent ''c'')],
       signalHistory = [],
       receptorFieldCache = [(''a'', [1, 0]), (''b'', [4, 3]), (''c'', [0, 1])],
       synapses = [], birthQueue = [], seeded = False, tick = 0, perceived = [], calls = [] \<rparr>"

text \<open>The same router with every receptor vector orthogonal to what the backend embeds.\<close>

definition ex_quiet :: biosphere where
  "ex_quiet = ex_world\<lparr> receptorFieldCache := [(''a'', [0, 1]), (''b'', [0, 1]), (''c'', [0, 1])] \<rparr>"

definition ex_injected :: signal where
  "ex_injected = createSignal (''sig-1'', 7) ''goal'' ''external'' [1, 0]"

text \<open>
  A router whose spawner has no operations of its own, whose backend always answers and whose
  reading of the answer always yields the same blueprint; two signals of higher dimension and
  receptor vectors at similarity 0.5 and 0.3 to them.
\<close>

definition ex_wide :: signal where
  "ex_wide = ex_hello\<lparr> pheromone := [1, 1, 1, 1] \<rparr>"

definition ex_faint :: signal where
  "ex_faint = ex_hello\<lparr> pheromone := [3, 4, 0, 0, 0] \<rparr>"

definition ex_blueprint :: BridgeAgentSpec where
  "ex_blueprint = \<lparr> spec_id = ''bridge'', spec_name = ''Bridge'', receptor_patterns = [''x'', ''y''],
                    spec_threshold = None, voice = None \<rparr>"

definition ex_bridge_config :: config where
  "ex_bridge_config =
     \<lparr> llm = \<lparr> embed = (\<lambda>t. if t = ''Bridge'' then Some [0, 1] else Some [1, 0]),
               chat = (\<lambda>ms. Some ''blueprint'') \<rparr>,
       spawner = Some \<lparr> seedFromGoal_op = None, spawnBridgeAgent_op = None \<rparr>,
       bridgeMessages = (\<lambda>sg source target. [(''user'', thought sg)]),
       parseBridgeSpec = (\<lambda>answer. Some ex_blueprint) \<rparr>"

definition ex_weak :: biosphere where
  "ex_weak = ex_world\<lparr> receptorFieldCache := [(''b'', [1, 0, 0, 0]), (''c'', [1, 0, 1, 1, 1])] \<rparr>"

section \<open>Facts about similarity\<close>

lemma accumulate_sums:
  "length a = length b \<Longrightarrow>
   accumulate a b (d, ma, mb) =
     (d + (\<Sum>(x, y)\<leftarrow>zip a b. x * y), ma + (\<Sum>(x, y)\<leftarrow>zip a b. x * x),
      mb + (\<Sum>(x, y)\<leftarrow>zip a b. y * y))"
proof (induction a b arbitrary: d ma mb rule: list_induct2)
  case Nil
  then show ?case by simp
next
  case (Cons x xs y ys)
  then show ?case by (simp add: algebra_simps)
qed

text \<open>One more coordinate keeps the Cauchy-Schwarz inequality.\<close>

lemma cs_step:
  fixes D A B x y :: real
  assumes "D * D \<le> A * B" "0 \<le> A" "0 \<le> B"
  shows "(D + x * y) * (D + x * y) \<le> (A + x * x) * (B + y * y)"
proof -
  have nn: "0 \<le> A * (y * y) + B * (x * x)" using assms by simp
  have key: "2 * D * x * y \<le> A * (y * y) + B * (x * x)"
  proof (cases "2 * D * x * y \<le> 0")
    case True
    then show ?thesis using nn by linarith
  next
    case False
    have "(2 * D * x * y)\<^sup>2 = 4 * (D * D) * ((x * x) * (y * y))"
      by (simp add: power2_eq_square)
    also have "\<dots> \<le> 4 * (A * B) * ((x * x) * (y * y))"
      using assms(1) by (intro mult_left_mono mult_right_mono) auto
    also have "\<dots> \<le> (A * (y * y) + B * (x * x))\<^sup>2"
    proof -
      have "0 \<le> (A * (y * y) - B * (x * x))\<^sup>2" by simp
      also have "(A * (y * y) - B * (x * x))\<^sup>2
                 = (A * (y * y) + B * (x * x))\<^sup>2 - 4 * (A * B) * ((x * x) * (y * y))"
        by (simp add: power2_eq_square algebra_simps)
      finally show ?thesis by simp
    qed
    finally show ?thesis using nn by (rule power2_le_imp_le)
  qed
  have "(A + x * x) * (B + y * y) - (D + x * y) * (D + x * y)
        = (A * B - D * D) + (A * (y * y) + B * (x * x) - 2 * D * x * y)"
    by (simp add: algebra_simps)
  then show ?thesis using key assms(1) by linarith
qed

lemma cauchy_schwarz_list:
  fixes zs :: "(real \<times> real) list"
  shows "(\<Sum>(x, y)\<leftarrow>zs. x * y) * (\<Sum>(x, y)\<leftarrow>zs. x * y)
           \<le> (\<Sum>(x, y)\<leftarrow>zs. x * x) * (\<Sum>(x, y)\<leftarrow>zs. y * y)
         \<and> 0 \<le> (\<Sum>(x, y)\<leftarrow>zs. x * x) \<and> 0 \<le> (\<Sum>(x, y)\<leftarrow>zs. y * y)"
proof (induction zs)
  case Nil
  then show ?case by simp
next
  case (Cons z zs)
  obtain x y where z: "z = (x, y)" by (cases z)
  let ?D = "\<Sum>(x, y)\<leftarrow>zs. x * y" and ?A = "\<Sum>(x, y)\<leftarrow>zs. x * x" and ?B = "\<Sum>(x, y)\<leftarrow>zs. y * y"
  from Cons.IH have ih: "?D * ?D \<le> ?A * ?B" "0 \<le> ?A" "0 \<le> ?B" by auto
  have "(?D + x * y) * (?D + x * y) \<le> (?A + x * x) * (?B + y * y)"
    by (rule cs_step[OF ih])
  then show ?case using ih z by (simp add: add.commute)
qed

lemma quotient_le_one:
  fixes D A B :: real
  assumes "D * D \<le> A * B" "0 \<le> A" "0 \<le> B" "sqrt A * sqrt B \<noteq> 0"
  shows "D / (sqrt A * sqrt B) \<le> 1"
proof -
  have pos: "0 < sqrt A * sqrt B"
    using assms by (metis mult_nonneg_nonneg order_le_less real_sqrt_ge_zero)
  have "(sqrt A * sqrt B)\<^sup>2 = A * B"
    using assms by (simp add: power_mult_distrib)
  then have "D\<^sup>2 \<le> (sqrt A * sqrt B)\<^sup>2"
    using assms(1) by (simp add: power2_eq_square)
  then have "D \<le> sqrt A * sqrt B" by (rule power2_le_imp_le) (use pos in simp)
  then show ?thesis using pos by simp
qed

lemma cosineSimilarity_le_one: "cosineSimilarity a b \<le> 1"
proof (cases "length a = 0 \<or> length b = 0 \<or> length a \<noteq> length b")
  case True
  then show ?thesis by (auto simp: cosineSimilarity_def)
next
  case False
  then have len: "length a = length b" by simp
  let ?zs = "zip a b"
  have acc: "accumulate a b (0, 0, 0) =
      ((\<Sum>(x, y)\<leftarrow>?zs. x * y), (\<Sum>(x, y)\<leftarrow>?zs. x * x), (\<Sum>(x, y)\<leftarrow>?zs. y * y))"
    using accumulate_sums[OF len, of 0 0 0] by simp
  show ?thesis
    using False cauchy_schwarz_list[of ?zs]
      quotient_le_one[of "\<Sum>(x, y)\<leftarrow>?zs. x * y" "\<Sum>(x, y)\<leftarrow>?zs. x * x" "\<Sum>(x, y)\<leftarrow>?zs. y * y"]
    by (auto simp: cosineSimilarity_def acc Let_def)
qed

lemma sqrt_25: "sqrt 25 = 5"
  by (rule real_sqrt_unique) simp_all

lemma cosine_boundary: "cosineSimilarity [1, 0] [4, 3] = 8 / 10"
  by (simp add: cosineSimilarity_def sqrt_25)

lemma cosine_half: "cosineSimilarity [1, 1, 1, 1] [1, 0, 0, 0] = 5 / 10"
  by (simp add: cosineSimilarity_def)

lemma cosine_three_tenths: "cosineSimilarity [3, 4, 0, 0, 0] [1, 0, 1, 1, 1] = 3 / 10"
  by (simp add: cosineSimilarity_def sqrt_25)

section \<open>The synapse: memo hits, failures, confidence and weight\<close>

lemma sigmoid_mono: "x \<le> y \<Longrightarrow> sigmoid x \<le> sigmoid y"
  unfolding sigmoid_def by (intro divide_left_mono) (auto simp: add_pos_pos)

lemma sigmoid_pos: "0 < sigmoid x"
  unfolding sigmoid_def by (simp add: add_pos_pos)

lemma calculateConfidence_mono:
  assumes "a \<le> b" "0 \<le> eff"
  shows "calculateConfidence a eff \<le> calculateConfidence b eff"
proof (cases "a = 0")
  case True
  then show ?thesis using assms sigmoid_pos[of "ln (real b + 1) - 2"]
    by (simp add: calculateConfidence_def)
next
  case False
  then have "b \<noteq> 0" using assms by simp
  have "ln (real a + 1) \<le> ln (real b + 1)" using assms by simp
  then have "sigmoid (ln (real a + 1) - 2) \<le> sigmoid (ln (real b + 1) - 2)"
    by (intro sigmoid_mono) simp
  then show ?thesis using False \<open>b \<noteq> 0\<close> assms
    by (simp add: calculateConfidence_def mult_right_mono)
qed

lemma getWeight_strict:
  assumes "a < b" "0 < baseSimilarity st * efficacy st"
  shows "getWeight (syn\<lparr>strength := st\<lparr>activations := a\<rparr>\<rparr>)
         < getWeight (syn\<lparr>strength := st\<lparr>activations := b\<rparr>\<rparr>)"
proof -
  have "ln (real a + 1) < ln (real b + 1)" using assms by simp
  then have "(1 + ln (real a + 1)) * (baseSimilarity st * efficacy st)
             < (1 + ln (real b + 1)) * (baseSimilarity st * efficacy st)"
    using assms(2) by (intro mult_strict_right_mono) auto
  then show ?thesis by (simp add: getWeight_def algebra_simps)
qed

text \<open>The values of the example synapses.\<close>

lemma ex_syn1_strength:
  "strength ex_syn1 = \<lparr> baseSimilarity = 6 / 10, activations = 1, efficacy = 1,
      confidence = calculateConfidence 1 1, conductionTime = 1, lastFiring = 2 \<rparr>"
  by (simp add: ex_syn1_def ex_syn0_def ex_hello_def ex_chat_backend_def ex_clock_def
        transform_def transformMessages_def createSignalSynapse_def Let_def)

lemma ex_syn1_memory: "synapticMemory ex_syn1 = [''hello'' \<mapsto> ''hi'']"
  by (simp add: ex_syn1_def ex_syn0_def ex_hello_def ex_chat_backend_def ex_clock_def
        transform_def transformMessages_def createSignalSynapse_def Let_def)

lemma ex_syn1_from: "from_id ex_syn1 = ''a''"
  by (simp add: ex_syn1_def ex_syn0_def ex_hello_def ex_chat_backend_def ex_clock_def
        transform_def transformMessages_def createSignalSynapse_def Let_def)

lemma ex_syn2_strength:
  "strength ex_syn2 = \<lparr> baseSimilarity = 6 / 10, activations = 2, efficacy = 1 / 2,
      confidence = calculateConfidence 2 (1 / 2), conductionTime = 1, lastFiring = 2 \<rparr>"
  by (simp add: ex_syn2_def ex_syn1_strength ex_syn1_memory ex_other_def ex_hello_def
        ex_chat_backend_def transform_def transformMessages_def dquote_def Let_def
        numeral_2_eq_2)

lemma ex_syn2_memory: "synapticMemory ex_syn2 = [''hello'' \<mapsto> ''hi'']"
  by (simp add: ex_syn2_def ex_syn1_strength ex_syn1_memory ex_other_def ex_hello_def
        ex_chat_backend_def transform_def transformMessages_def dquote_def Let_def)

lemma ex_syn2_from: "from_id ex_syn2 = ''a''"
  by (simp add: ex_syn2_def ex_syn1_from ex_syn1_memory ex_other_def ex_hello_def
        ex_chat_backend_def transform_def transformMessages_def dquote_def Let_def)

lemma ex_failed1_strength:
  "strength ex_failed1 = \<lparr> baseSimilarity = 6 / 10, activations = 1, efficacy = 0,
      confidence = 0, conductionTime = 0, lastFiring = 0 \<rparr>"
  by (simp add: ex_failed1_def ex_syn0_def ex_other_def ex_hello_def ex_chat_backend_def
        transform_def transformMessages_def createSignalSynapse_def calculateConfidence_def
        dquote_def Let_def)

lemma ex_failed1_memory: "synapticMemory ex_failed1 = (\<lambda>_. None)"
  by (simp add: ex_failed1_def ex_syn0_def ex_other_def ex_hello_def ex_chat_backend_def
        transform_def transformMessages_def createSignalSynapse_def dquote_def Let_def)

lemma ex_failed2_strength:
  "strength ex_failed2 = \<lparr> baseSimilarity = 6 / 10, activations = 2, efficacy = 0,
      confidence = 0, conductionTime = 0, lastFiring = 0 \<rparr>"
  by (simp add: ex_failed2_def ex_failed1_strength ex_failed1_memory ex_other_def ex_hello_def
        ex_chat_backend_def transform_def transformMessages_def calculateConfidence_def
        dquote_def Let_def)

text \<open>
  C3, as the code has it. On a memo hit whose cached text is not empty, \<open>transform\<close> makes no
  backend call and returns the signal with the cached thought and \<open>emittedBy\<close> set to the
  source agent. In the strength it increments \<open>activations\<close>, sets \<open>lastFiring\<close> to the
  clock and recomputes \<open>confidence\<close> from the new count and the old efficacy; \<open>efficacy\<close>
  and \<open>conductionTime\<close> are left as they were, and the memo table is unchanged.
\<close>

theorem transform_memo_hit:
  assumes "synapticMemory syn (thought sg) = Some cached" and "cached \<noteq> []"
  shows "transform be clock syn sg =
     (sg\<lparr>thought := cached, emittedBy := from_id syn\<rparr>,
      syn\<lparr>strength := (strength syn)\<lparr>activations := activations (strength syn) + 1,
            lastFiring := clock 1,
            confidence := calculateConfidence (activations (strength syn) + 1)
                            (efficacy (strength syn))\<rparr>\<rparr>,
      [])"
  using assms by (cases cached) (simp_all add: transform_def Let_def)

text \<open>The memo hit of the example run: the third transform of the synapse.\<close>

theorem transform_memo_hit_witness:
  "synapticMemory ex_syn2 (thought ex_hello) = Some ''hi''
   \<and> transform ex_chat_backend ex_clock ex_syn2 ex_hello =
       (ex_hello\<lparr>thought := ''hi'', emittedBy := ''a''\<rparr>,
        ex_syn2\<lparr>strength := \<lparr> baseSimilarity = 6 / 10, activations = 3, efficacy = 1 / 2,
                   confidence = calculateConfidence 3 (1 / 2), conductionTime = 1,
                   lastFiring = 1 \<rparr>\<rparr>,
        [])"
proof -
  have h: "synapticMemory ex_syn2 (thought ex_hello) = Some ''hi''"
    by (simp add: ex_syn2_memory ex_hello_def)
  have ne: "''hi'' \<noteq> []" by simp
  show ?thesis
    using h transform_memo_hit[OF h ne, of ex_chat_backend ex_clock]
    by (simp add: ex_syn2_strength ex_syn2_from ex_clock_def)
qed

text \<open>
  C3 as stated fails: after one success (latency 1) and one failure the synapse has efficacy
  1/2 and mean latency 1. A memo hit recorded as a fully successful transmission of latency
  zero would move the running means to 2/3 and 2/3; the code leaves them at 1/2 and 1.
\<close>

theorem transform_memo_hit_counterexample:
  "synapticMemory ex_syn2 (thought ex_hello) = Some ''hi''
   \<and> activations (strength ex_syn2) = 2 \<and> activations (strength ex_syn3) = 3
   \<and> efficacy (strength ex_syn3) = 1 / 2
   \<and> efficacy (strength ex_syn3) \<noteq> (efficacy (strength ex_syn2) * 2 + 1) / 3
   \<and> conductionTime (strength ex_syn3) = 1
   \<and> conductionTime (strength ex_syn3) \<noteq> (conductionTime (strength ex_syn2) * 2 + 0) / 3"
  by (simp add: ex_syn3_def ex_syn2_strength ex_syn2_memory ex_hello_def transform_def Let_def)

text \<open>
  A memo entry holding the empty string is not a hit: the backend is asked again.
\<close>

lemma transform_empty_memo_entry:
  "synapticMemory syn (thought sg) = Some [] \<Longrightarrow>
   snd (snd (transform be clock syn sg)) = [Chat (transformMessages syn sg)]"
  by (simp add: transform_def Let_def split: option.splits)

text \<open>
  C6. When \<open>transform\<close> reaches the backend (no usable memo entry) and the chat call fails,
  it returns the original signal unchanged, increments \<open>activations\<close>, and updates the
  efficacy running mean with 0 where success would have added 1; nothing is thrown. Latency,
  last firing time and memo table are left as they were.
\<close>

theorem transform_backend_failure:
  assumes "synapticMemory syn (thought sg) = None \<or> synapticMemory syn (thought sg) = Some []"
      and "chat be (transformMessages syn sg) = None"
  shows "transform be clock syn sg =
     (sg,
      syn\<lparr>strength := (strength syn)\<lparr>activations := activations (strength syn) + 1,
            efficacy := (efficacy (strength syn) * real (activations (strength syn)) + 0)
                          / real (activations (strength syn) + 1),
            confidence := calculateConfidence (activations (strength syn) + 1)
               ((efficacy (strength syn) * real (activations (strength syn)) + 0)
                  / real (activations (strength syn) + 1))\<rparr>\<rparr>,
      [Chat (transformMessages syn sg)])"
  using assms by (auto simp add: transform_def Let_def)

text \<open>The failed transform of the example run: efficacy drops from 1 to 1/2.\<close>

theorem transform_backend_failure_witness:
  "synapticMemory ex_syn1 (thought ex_other) = None
   \<and> chat ex_chat_backend (transformMessages ex_syn1 ex_other) = None
   \<and> fst (transform ex_chat_backend ex_clock ex_syn1 ex_other) = ex_other
   \<and> efficacy (strength (fst (snd (transform ex_chat_backend ex_clock ex_syn1 ex_other)))) = 1 / 2
   \<and> activations (strength (fst (snd (transform ex_chat_backend ex_clock ex_syn1 ex_other)))) = 2"
proof -
  have h1: "synapticMemory ex_syn1 (thought ex_other) = None
            \<or> synapticMemory ex_syn1 (thought ex_other) = Some []"
    by (simp add: ex_syn1_memory ex_other_def ex_hello_def)
  have h2: "chat ex_chat_backend (transformMessages ex_syn1 ex_other) = None"
    by (simp add: ex_chat_backend_def transformMessages_def ex_other_def ex_hello_def dquote_def)
  show ?thesis
    using h2 transform_backend_failure[OF h1 h2, of ex_clock]
    by (simp add: ex_syn1_strength ex_syn1_memory ex_other_def ex_hello_def)
qed

text \<open>
  C7, as the code has it. For a fixed efficacy that is not negative, \<open>confidence\<close> does not
  decrease when the activation count grows. \<open>getWeight\<close> grows strictly with the activation
  count when the product of base similarity and efficacy is positive; when that product is
  zero the weight stays the same whatever the count.
\<close>

theorem confidence_weight_monotone:
  assumes "a \<le> b"
  shows "(0 \<le> eff \<longrightarrow> calculateConfidence a eff \<le> calculateConfidence b eff)
       \<and> (a < b \<and> 0 < baseSimilarity st * efficacy st \<longrightarrow>
            getWeight (syn\<lparr>strength := st\<lparr>activations := a\<rparr>\<rparr>)
              < getWeight (syn\<lparr>strength := st\<lparr>activations := b\<rparr>\<rparr>))
       \<and> (baseSimilarity st * efficacy st = 0 \<longrightarrow>
            getWeight (syn\<lparr>strength := st\<lparr>activations := a\<rparr>\<rparr>)
              = getWeight (syn\<lparr>strength := st\<lparr>activations := b\<rparr>\<rparr>))"
  using assms calculateConfidence_mono[of a b eff] getWeight_strict[of a b st syn]
  by (auto simp: getWeight_def)

text \<open>One against two activations at efficacy 1/2 and base similarity 0.6.\<close>

theorem confidence_weight_monotone_witness:
  "calculateConfidence 1 (1 / 2) \<le> calculateConfidence 2 (1 / 2)
   \<and> getWeight (ex_syn2\<lparr>strength := (strength ex_syn2)\<lparr>activations := 1\<rparr>\<rparr>)
       < getWeight (ex_syn2\<lparr>strength := (strength ex_syn2)\<lparr>activations := 2\<rparr>\<rparr>)"
proof -
  have h: "(1::nat) \<le> 2" by simp
  show ?thesis
    using confidence_weight_monotone[OF h, of "1 / 2" "strength ex_syn2" ex_syn2]
    by (simp add: ex_syn2_strength)
qed

text \<open>
  C7 as stated fails: a synapse whose first transforms all failed has efficacy 0, and its
  weight is the same after one and after two activations.
\<close>

theorem getWeight_not_strictly_increasing_counterexample:
  "activations (strength ex_failed1) < activations (strength ex_failed2)
   \<and> efficacy (strength ex_failed1) = efficacy (strength ex_failed2)
   \<and> baseSimilarity (strength ex_failed1) = baseSimilarity (strength ex_failed2)
   \<and> \<not> getWeight ex_failed1 < getWeight ex_failed2"
  by (simp add: ex_failed1_strength ex_failed2_strength getWeight_def)

section \<open>The detector: guards, momentum, stagnation and the ideal-state cache\<close>

lemma length_slice_last:
  "length (slice (- int w) None xs) = (if w = 0 then length xs else min w (length xs))"
  by (auto simp: slice_def Let_def)

lemma length_slice_previous:
  "length (slice (- int w * 2) (Some (- int w)) xs) =
     (if w = 0 then 0 else (length xs - w) - (length xs - 2 * w))"
  by (auto simp: slice_def Let_def min_def max_def)

lemma nat_int_diff: "nat (int a - int b) = a - b"
  by simp

lemma slice_last_eq_drop:
  "0 < w \<Longrightarrow> slice (- int w) None xs = drop (length xs - w) xs"
  by (auto simp: slice_def Let_def max_def nat_int_diff simp del: of_nat_diff)

lemma measureMomentum_half:
  assumes "real (length allSignals) \<ge> msw * 2"
  shows "measureMomentum msw allSignals recentSignals = 1 / 2"
proof -
  let ?n = "length allSignals"
  let ?w = "?n div 2"
  have rec: "length (slice (- int ?w) None allSignals) = (if ?w = 0 then ?n else ?w)"
    by (simp add: length_slice_last)
  have "length (slice (- int ?w * 2) (Some (- int ?w)) allSignals)
        = (if ?w = 0 then 0 else (?n - ?w) - (?n - 2 * ?w))"
    by (rule length_slice_previous)
  also have "\<dots> = ?w" by auto
  finally have prev: "length (slice (- int ?w * 2) (Some (- int ?w)) allSignals) = ?w" .
  show ?thesis
  proof (cases "?w = 0")
    case True
    then show ?thesis using assms prev unfolding measureMomentum_def Let_def by simp
  next
    case False
    then show ?thesis using assms rec prev unfolding measureMomentum_def Let_def by simp
  qed
qed

lemma detectStagnation_last:
  assumes "detectStagnation d"
  shows "stagnationHistory d \<noteq> [] \<and> h_tension (last (stagnationHistory d)) > 7 / 10
         \<and> (h_coherence (last (stagnationHistory d)) < 3 / 10
            \<or> h_clarity (last (stagnationHistory d)) < 3 / 10)"
proof -
  let ?hs = "stagnationHistory d"
  from assms have len: "5 \<le> length ?hs"
    by (auto simp: detectStagnation_def stagnationWindowSize_def split: if_splits)
  then have ne: "?hs \<noteq> []" by auto
  have "slice (- int stagnationWindowSize) None ?hs = drop (length ?hs - stagnationWindowSize) ?hs"
    by (rule slice_last_eq_drop) (simp add: stagnationWindowSize_def)
  then have sl: "slice (- int stagnationWindowSize) None ?hs = drop (length ?hs - 5) ?hs"
    by (simp add: stagnationWindowSize_def)
  have "length ?hs - 5 < length ?hs" using len by simp
  then have "last (drop (length ?hs - 5) ?hs) = last ?hs" by (rule last_drop)
  moreover have "drop (length ?hs - 5) ?hs \<noteq> []" using len by simp
  ultimately have "last ?hs \<in> set (drop (length ?hs - 5) ?hs)"
    by (metis last_in_set)
  with assms len ne show ?thesis unfolding detectStagnation_def Let_def sl
    by (auto simp: list_all_iff stagnationWindowSize_def split: if_splits)
qed

lemma stagnation_after_push:
  assumes "detectStagnation (d\<lparr>stagnationHistory :=
             (if length (hs @ [e]) > stagnationWindowSize then tl (hs @ [e]) else hs @ [e])\<rparr>)"
  shows "h_tension e > 7 / 10 \<and> (h_coherence e < 3 / 10 \<or> h_clarity e < 3 / 10)"
proof -
  let ?kept = "if length (hs @ [e]) > stagnationWindowSize then tl (hs @ [e]) else hs @ [e]"
  have "last ?kept = e"
    by (cases hs) (auto simp: stagnationWindowSize_def)
  with detectStagnation_last[OF assms] show ?thesis by simp
qed

lemma clarity_inner_le_one: "m \<le> 1 \<Longrightarrow> clarity_inner sg embs m \<le> 1"
  by (induction embs arbitrary: m) (simp_all add: cosineSimilarity_le_one)

lemma clarity_outer_le_one: "m \<le> 1 \<Longrightarrow> clarity_outer sgs embs m \<le> 1"
  by (induction sgs arbitrary: m) (simp_all add: clarity_inner_le_one)

lemma measureDecisionClarity_le_one:
  "measureDecisionClarity be sgs = (Inr c, made) \<Longrightarrow> c \<le> 1"
  by (auto simp: measureDecisionClarity_def clarity_outer_le_one split: if_splits option.splits)

lemma measureCoherence_range: "0 \<le> measureCoherence sgs \<and> measureCoherence sgs \<le> 1"
  by (auto simp: measureCoherence_def Let_def split: prod.splits)

lemma measureMomentum_nonneg: "0 \<le> measureMomentum msw sgs rs"
  by (simp add: measureMomentum_def Let_def)

text \<open>
  A stagnant current tick forces the energy to 0.35 or more: the tension term alone exceeds
  0.28, and the coherence or the clarity term adds more than 0.21 or 0.14.
\<close>

lemma stagnant_energy:
  fixes t m c cl :: real
  assumes "t > 7 / 10" "c < 3 / 10 \<or> cl < 3 / 10" "0 \<le> m" "c \<le> 1" "cl \<le> 1"
  shows "\<not> calculateEnergy t m c cl < 35 / 100"
proof -
  define e where "e = 4 / 10 * t + 1 / 10 * m + 3 / 10 * (1 - c) + 2 / 10 * (1 - cl)"
  have "35 / 100 < e" unfolding e_def using assms by argo
  then have "35 / 100 < max 0 (min 1 e)" by simp
  moreover have "calculateEnergy t m c cl = max 0 (min 1 e)"
    unfolding calculateEnergy_def Let_def e_def by (rule refl)
  ultimately show ?thesis by simp
qed

text \<open>Every invocation, failed ones included, advances the invocation counter by one.\<close>

lemma detect_counts_invocations:
  "currentTick (fst (snd (detect be scenario signals d))) = currentTick d + 1"
  by (auto simp: detect_def extractIdealState_def Let_def
           split: option.splits prod.splits sum.splits)

text \<open>
  C5. When the history is shorter than \<open>minSignalWindow\<close>, or when the invocation counter
  (already counting this invocation) is below \<open>minTicks\<close>, \<open>detect\<close> returns the report
  \<open>atEquilibrium = false\<close>, tension 1, momentum 1, coherence 0, clarity 0, not stagnant, and
  makes no backend call at all; only the invocation counter changes.
\<close>

theorem detect_guards:
  assumes "real (length signals) < minSignalWindow d \<or> real (currentTick d + 1) < minTicks d"
  shows "detect be scenario signals d =
           (Inr \<lparr>atEquilibrium = False, goalTension = 1, momentum = 1, coherence = 0,
                 decisionClarity = 0, isStagnant = False,
                 reasoning = (if real (length signals) < minSignalWindow d then InsufficientHistory
                              else EarlyDialogue (currentTick d + 1) (minTicks d))\<rparr>,
            d\<lparr>currentTick := currentTick d + 1\<rparr>, [])"
  using assms by (auto simp: detect_def Let_def notReady_def)

text \<open>A detector with the default minimums of 5, given one signal.\<close>

theorem detect_guards_witness:
  "real (length [ex_signal]) < minSignalWindow (new_detector None None)
   \<and> detect ex_backend ''goal'' [ex_signal] (new_detector None None) =
       (Inr \<lparr>atEquilibrium = False, goalTension = 1, momentum = 1, coherence = 0,
             decisionClarity = 0, isStagnant = False, reasoning = InsufficientHistory\<rparr>,
        (new_detector None None)\<lparr>currentTick := 1\<rparr>, [])"
proof -
  have h: "real (length [ex_signal]) < minSignalWindow (new_detector None None)
           \<or> real (currentTick (new_detector None None) + 1) < minTicks (new_detector None None)"
    by (simp add: new_detector_def)
  show ?thesis
    using detect_guards[OF h, of ex_backend "''goal''"] by (simp add: new_detector_def)
qed

text \<open>
  C10. For a history at least twice \<open>minSignalWindow\<close> long, \<open>measureMomentum\<close> returns
  exactly 1/2. The previous window always has \<open>floor(len/2)\<close> elements, and so has the recent
  window whenever that number is positive, so the ratio of the counts is 1; when it is zero
  the previous window is empty and the guard on the divisor gives the ratio 1 as well.
\<close>

theorem measureMomentum_half_windows:
  assumes "msw * 2 \<le> real (length allSignals)"
  shows "measureMomentum msw allSignals recentSignals = 1 / 2
         \<and> length (slice (- int (length allSignals div 2) * 2)
                     (Some (- int (length allSignals div 2))) allSignals) = length allSignals div 2
         \<and> (0 < length allSignals div 2 \<longrightarrow>
              length (slice (- int (length allSignals div 2)) None allSignals)
                = length allSignals div 2)"
proof -
  let ?n = "length allSignals"
  let ?w = "?n div 2"
  have "length (slice (- int ?w * 2) (Some (- int ?w)) allSignals)
        = (if ?w = 0 then 0 else (?n - ?w) - (?n - 2 * ?w))"
    by (rule length_slice_previous)
  also have "\<dots> = ?w" by auto
  finally have prev: "length (slice (- int ?w * 2) (Some (- int ?w)) allSignals) = ?w" .
  have rec: "0 < ?w \<longrightarrow> length (slice (- int ?w) None allSignals) = ?w"
    by (simp add: length_slice_last)
  from assms show ?thesis using prev rec measureMomentum_half by blast
qed

text \<open>Ten signals with the default window of 5.\<close>

theorem measureMomentum_half_windows_witness:
  "5 * 2 \<le> real (length (replicate 10 ex_signal))
   \<and> measureMomentum 5 (replicate 10 ex_signal) (replicate 10 ex_signal) = 1 / 2"
proof -
  have h: "5 * 2 \<le> real (length (replicate 10 ex_signal))" by simp
  show ?thesis using h measureMomentum_half_windows[OF h] by blast
qed

lemma measureGoalTension_range:
  "measureGoalTension be ideal sgs = (Inr t, made) \<Longrightarrow> 0 \<le> t \<and> t \<le> 1"
  by (auto simp: measureGoalTension_def Let_def split: if_splits option.splits)

text \<open>
  C9. No report of \<open>detect\<close> is both stagnant and at equilibrium, whatever the detector's
  earlier history: a stagnant report needs the current tick's tension above 0.7 with coherence
  or clarity below 0.3, and then the energy is not below the equilibrium threshold 0.35.
\<close>

theorem detect_never_stagnant_at_equilibrium:
  assumes "detect be scenario signals d = (Inr st, d', made)"
  shows "\<not> (isStagnant st \<and> atEquilibrium st)"
proof (cases "real (length signals) < minSignalWindow d \<or> real (currentTick d + 1) < minTicks d")
  case True
  with assms have "\<exists>why. st = notReady why"
    by (auto simp: detect_def Let_def split: if_splits)
  then show ?thesis by (auto simp: notReady_def)
next
  case False
  let ?d = "d\<lparr>currentTick := currentTick d + 1\<rparr>"
  let ?recent = "slice (- int signalWindowSize) None signals"
  obtain r1 d1 c1 where e1: "extractIdealState be scenario ?d = (r1, d1, c1)"
    by (cases "extractIdealState be scenario ?d") auto
  with assms False obtain ideal where r1: "r1 = Inr ideal"
    by (cases r1) (auto simp: detect_def Let_def)
  obtain r2 c2 where e2: "measureGoalTension be ideal ?recent = (r2, c2)"
    by (cases "measureGoalTension be ideal ?recent") auto
  with assms False e1 r1 obtain t where r2: "r2 = Inr t"
    by (cases r2) (auto simp: detect_def Let_def)
  obtain r3 c3 where e3: "measureDecisionClarity be ?recent = (r3, c3)"
    by (cases "measureDecisionClarity be ?recent") auto
  with assms False e1 r1 e2 r2 obtain cl where r3: "r3 = Inr cl"
    by (cases r3) (auto simp: detect_def Let_def)
  let ?m = "measureMomentum (minSignalWindow d1) signals ?recent"
  let ?c = "measureCoherence ?recent"
  let ?e = "\<lparr>h_tick = currentTick d1, h_tension = t, h_coherence = ?c, h_clarity = cl\<rparr>"
  let ?hs = "stagnationHistory d1"
  let ?kept = "if length (?hs @ [?e]) > stagnationWindowSize then tl (?hs @ [?e]) else ?hs @ [?e]"
  from assms False e1 r1 e2 r2 e3 r3
  have stag: "isStagnant st = detectStagnation (d1\<lparr>stagnationHistory := ?kept\<rparr>)"
    and eq: "atEquilibrium st \<longrightarrow> calculateEnergy t ?m ?c cl < 35 / 100"
    by (auto simp: detect_def Let_def)
  show ?thesis
  proof
    assume both: "isStagnant st \<and> atEquilibrium st"
    then have "detectStagnation (d1\<lparr>stagnationHistory := ?kept\<rparr>)" using stag by simp
    then have "h_tension ?e > 7 / 10 \<and> (h_coherence ?e < 3 / 10 \<or> h_clarity ?e < 3 / 10)"
      by (rule stagnation_after_push)
    then have "t > 7 / 10" "?c < 3 / 10 \<or> cl < 3 / 10" by simp_all
    moreover have "0 \<le> ?m" by (rule measureMomentum_nonneg)
    moreover have "?c \<le> 1" using measureCoherence_range by blast
    moreover have "cl \<le> 1" using e3 r3 measureDecisionClarity_le_one by blast
    ultimately have "\<not> calculateEnergy t ?m ?c cl < 35 / 100" by (rule stagnant_energy)
    with both eq show False by simp
  qed
qed

text \<open>The deadlocked run: four invocations fill the window, the fifth reports stagnation.\<close>

lemmas ex_detect_defs =
  ex_split_backend_def ex_orthogonal_def ex_hello_def ex_entry_def ex_stuck_def new_detector_def
  detect_def extractIdealState_def measureGoalTension_def measureDecisionClarity_def
  decisionAnchors_def measureCoherence_def measureMomentum_def cosineSimilarity_def
  calculateEnergy_def calculateEnergyGradient_def explainState_def detectStagnation_def
  signalWindowSize_def stagnationWindowSize_def slice_def Let_def

lemma ex_tick_1:
  "fst (snd (detect ex_split_backend ''goal'' [ex_orthogonal] (new_detector (Some 1) (Some 1))))
     = ex_stuck 1 [ex_entry 1]"
  by (simp add: ex_detect_defs)

lemma ex_tick_2:
  "fst (snd (detect ex_split_backend ''goal'' [ex_orthogonal] (ex_stuck 1 [ex_entry 1])))
     = ex_stuck 2 [ex_entry 1, ex_entry 2]"
  by (simp add: ex_detect_defs)

lemma ex_tick_3:
  "fst (snd (detect ex_split_backend ''goal'' [ex_orthogonal] (ex_stuck 2 [ex_entry 1, ex_entry 2])))
     = ex_stuck 3 [ex_entry 1, ex_entry 2, ex_entry 3]"
  by (simp add: ex_detect_defs)

lemma ex_tick_4:
  "fst (snd (detect ex_split_backend ''goal'' [ex_orthogonal]
               (ex_stuck 3 [ex_entry 1, ex_entry 2, ex_entry 3])))
     = ex_stuck 4 [ex_entry 1, ex_entry 2, ex_entry 3, ex_entry 4]"
  by (simp add: ex_detect_defs)

lemma ex_four_ticks:
  "ex_detector_after (Suc (Suc (Suc (Suc 0))))
     = ex_stuck 4 [ex_entry 1, ex_entry 2, ex_entry 3, ex_entry 4]"
  by (simp only: ex_detector_after.simps ex_tick_1 ex_tick_2 ex_tick_3 ex_tick_4)

lemma ex_tick_5:
  "fst (detect ex_split_backend ''goal'' [ex_orthogonal] (ex_detector_after (Suc (Suc (Suc (Suc 0))))))
     = Inr \<lparr>atEquilibrium = False, goalTension = 1, momentum = 1, coherence = 0,
             decisionClarity = 0, isStagnant = True,
             reasoning = IssueText ''system converging'' True\<rparr>"
  unfolding ex_four_ticks by (simp add: ex_detect_defs)

theorem detect_never_stagnant_at_equilibrium_witness:
  "fst (detect ex_split_backend ''goal'' [ex_orthogonal] (ex_detector_after (Suc (Suc (Suc (Suc 0))))))
     = Inr \<lparr>atEquilibrium = False, goalTension = 1, momentum = 1, coherence = 0,
             decisionClarity = 0, isStagnant = True,
             reasoning = IssueText ''system converging'' True\<rparr>
   \<and> \<not> (isStagnant \<lparr>atEquilibrium = False, goalTension = 1, momentum = 1, coherence = 0,
             decisionClarity = 0, isStagnant = True,
             reasoning = IssueText ''system converging'' True\<rparr>
         \<and> atEquilibrium \<lparr>atEquilibrium = False, goalTension = 1, momentum = 1, coherence = 0,
             decisionClarity = 0, isStagnant = True,
             reasoning = IssueText ''system converging'' True\<rparr>)"
proof -
  let ?run = "detect ex_split_backend ''goal'' [ex_orthogonal]
                (ex_detector_after (Suc (Suc (Suc (Suc 0)))))"
  let ?st = "\<lparr>atEquilibrium = False, goalTension = 1, momentum = 1, coherence = 0,
             decisionClarity = 0, isStagnant = True,
             reasoning = IssueText ''system converging'' True\<rparr>"
  have "?run = (Inr ?st, fst (snd ?run), snd (snd ?run))"
    using ex_tick_5 by (metis prod.collapse)
  from detect_never_stagnant_at_equilibrium[OF this] ex_tick_5 show ?thesis by blast
qed

text \<open>
  The calls of the two steps that handle the ideal state: a cache hit makes no call and hands
  the scenario on; the tension measure embeds whatever text it is handed, every time.
\<close>

lemma extractIdealState_hit:
  "idealStateCache d scenario = Some v \<Longrightarrow> extractIdealState be scenario d = (Inr scenario, d, [])"
  by (simp add: extractIdealState_def)

lemma extractIdealState_miss:
  "idealStateCache d scenario = None \<Longrightarrow> chat be (idealStateMessages scenario) = Some response
   \<Longrightarrow> embed be response = Some v
   \<Longrightarrow> extractIdealState be scenario d =
         (Inr response, d\<lparr>idealStateCache := (idealStateCache d)(scenario \<mapsto> v)\<rparr>,
          [Chat (idealStateMessages scenario), Embed response])"
  by (simp add: extractIdealState_def)

lemma measureGoalTension_calls:
  "sgs \<noteq> [] \<Longrightarrow> hd (snd (measureGoalTension be ideal sgs)) = Embed ideal"
  by (simp add: measureGoalTension_def Let_def split: option.splits)

lemma ex_first_value:
  "fst (snd ex_first) =
     \<lparr> minSignalWindow = 1, minTicks = 1, idealStateCache = [''goal'' \<mapsto> [1]], currentTick = 1,
       stagnationHistory = [\<lparr>h_tick = 1, h_tension = 0, h_coherence = 0, h_clarity = 1\<rparr>] \<rparr>"
  by (simp add: ex_first_def ex_backend_def ex_signal_def new_detector_def detect_def
      extractIdealState_def measureGoalTension_def measureDecisionClarity_def decisionAnchors_def
      measureCoherence_def cosineSimilarity_def
      signalWindowSize_def stagnationWindowSize_def slice_def Let_def)

text \<open>
  C2, evaluated on the code. Two invocations with the same scenario, both past the guards: the
  first asks the backend for the ideal state and embeds the answer twice (once to fill the
  cache, once more to measure tension); the second finds the cache entry, does not read the
  cached vector, and embeds the scenario text in the place of the ideal state.
\<close>

theorem ideal_state_embedded_twice:
  "snd (snd ex_first) =
     [Chat (idealStateMessages ''goal''), Embed ''resolved'', Embed ''resolved'', Embed ''hello'']
       @ map Embed decisionAnchors
   \<and> snd (snd ex_second) = [Embed ''goal'', Embed ''hello''] @ map Embed decisionAnchors"
proof
  show "snd (snd ex_first) =
     [Chat (idealStateMessages ''goal''), Embed ''resolved'', Embed ''resolved'', Embed ''hello'']
       @ map Embed decisionAnchors"
    by (simp add: ex_first_def ex_backend_def ex_signal_def new_detector_def detect_def
      extractIdealState_def measureGoalTension_def measureDecisionClarity_def
      signalWindowSize_def slice_def Let_def decisionAnchors_def)
  show "snd (snd ex_second) = [Embed ''goal'', Embed ''hello''] @ map Embed decisionAnchors"
    unfolding ex_second_def ex_first_value
    by (simp add: ex_backend_def ex_signal_def detect_def
      extractIdealState_def measureGoalTension_def measureDecisionClarity_def
      signalWindowSize_def slice_def Let_def decisionAnchors_def)
qed

section \<open>The router: admission, broadcast and the three tiers\<close>

lemma map_delete_map_set_fresh:
  "k \<notin> fst ` set m \<Longrightarrow> map_delete k (map_set k v m) = m"
  by (induction m) auto

lemma map_of_map_delete_same: "map_of (map_delete k m) k = None"
  by (induction m) auto

lemma map_delete_fresh: "k \<notin> fst ` set m \<Longrightarrow> map_delete k m = m"
  by (induction m) auto

text \<open>
  C8, as the code has it. For an agent whose id is neither registered nor cached, \<open>birth\<close>
  followed by \<open>death\<close> of that id leaves the registry and the receptor cache exactly as they
  were before the birth, entry order included, whether or not the embedding succeeded. And
  after \<open>death\<close> of any id in any state, neither the registry nor the cache holds that id.
\<close>

theorem birth_then_death_restores:
  assumes "agent_id a \<notin> fst ` set (agents s)" "agent_id a \<notin> fst ` set (receptorFieldCache s)"
  shows "agents (death (agent_id a) (snd (birth be a s))) = agents s
       \<and> receptorFieldCache (death (agent_id a) (snd (birth be a s))) = receptorFieldCache s
       \<and> map_of (agents (death i s0)) i = None
       \<and> map_of (receptorFieldCache (death i s0)) i = None"
  using assms
  by (auto simp: birth_def birth_begin_def birth_complete_def death_def
        map_delete_map_set_fresh map_delete_fresh map_of_map_delete_same split: option.splits)

text \<open>A fourth agent is born into the example router and dies.\<close>

theorem birth_then_death_restores_witness:
  "agent_id (ex_agent ''d'') \<notin> fst ` set (agents ex_world)
   \<and> agents (death ''d'' (snd (birth ex_chat_backend (ex_agent ''d'') ex_world))) = agents ex_world
   \<and> receptorFieldCache (death ''d'' (snd (birth ex_chat_backend (ex_agent ''d'') ex_world)))
       = receptorFieldCache ex_world"
proof -
  have h1: "agent_id (ex_agent ''d'') \<notin> fst ` set (agents ex_world)"
    by (simp add: ex_agent_def ex_world_def)
  have h2: "agent_id (ex_agent ''d'') \<notin> fst ` set (receptorFieldCache ex_world)"
    by (simp add: ex_agent_def ex_world_def)
  have i: "agent_id (ex_agent ''d'') = ''d''" by (simp add: ex_agent_def)
  show ?thesis
    using h1 birth_then_death_restores[OF h1 h2, of ex_chat_backend] by (simp add: i)
qed

text \<open>
  C8 as stated fails for an agent whose id is already live: \<open>birth\<close> overwrites the entry
  and \<open>death\<close> removes it, so the entries that were there before the birth are gone.
\<close>

theorem birth_then_death_counterexample:
  "agent_id (ex_agent ''a'') \<in> fst ` set (agents ex_world)
   \<and> agents (death ''a'' (snd (birth ex_chat_backend (ex_agent ''a'') ex_world)))
       = [(''b'', ex_agent ''b''), (''c'', ex_agent ''c'')]
   \<and> agents (death ''a'' (snd (birth ex_chat_backend (ex_agent ''a'') ex_world))) \<noteq> agents ex_world
   \<and> receptorFieldCache (death ''a'' (snd (birth ex_chat_backend (ex_agent ''a'') ex_world)))
       \<noteq> receptorFieldCache ex_world"
  by (simp add: birth_def birth_begin_def birth_complete_def death_def ex_world_def ex_agent_def
        ex_chat_backend_def receptorText_def)

lemma perceive_all_perceived:
  "perceived (perceive_all rs sg s) = perceived s @ map (\<lambda>a. (agent_id a, sg)) rs"
  by (induction rs arbitrary: s) (simp_all add: perceive_def)

lemma perceive_all_agents: "agents (perceive_all rs sg s) = agents s"
  by (induction rs arbitrary: s) (simp_all add: perceive_def)

lemma birth_complete_perceived: "perceived (snd (birth_complete be a s)) = perceived s"
  by (simp add: birth_complete_def split: option.splits)

lemma complete_all_perceived: "perceived (snd (complete_all be as s)) = perceived s"
proof (induction as arbitrary: s)
  case Nil
  then show ?case by simp
next
  case (Cons a as)
  obtain r s1 where b: "birth_complete be a s = (r, s1)"
    by (cases "birth_complete be a s") auto
  obtain r' s2 where c: "complete_all be as s1 = (r', s2)"
    by (cases "complete_all be as s1") auto
  have "perceived s1 = perceived s" using birth_complete_perceived[of be a s] b by simp
  moreover have "perceived s2 = perceived s1" using Cons.IH[of s1] c by simp
  ultimately show ?case using b c by simp
qed

lemma flushBirthQueue_perceived: "perceived (snd (flushBirthQueue be s)) = perceived s"
  by (simp add: flushBirthQueue_def complete_all_perceived)

lemma queue_births_perceived: "perceived (queue_births as s) = perceived s"
  by (induction as arbitrary: s) (simp_all add: birth_begin_def)

lemma seedFromGoal_perceived: "perceived (snd (seedFromGoal cfg goal s)) = perceived s"
proof -
  have "\<And>proposed. perceived (snd (flushBirthQueue (llm cfg) (queue_births proposed s))) = perceived s"
    by (simp add: flushBirthQueue_perceived queue_births_perceived)
  then show ?thesis
    by (auto simp: seedFromGoal_def split: option.splits prod.splits sum.splits)
       (metis snd_conv)+
qed

text \<open>What a successful injection by \<open>external\<close> delivers.\<close>

lemma inject_external_broadcast:
  assumes "inject cfg fresh th src s = (Inr (), s')" and "src = None \<or> src = Some ''external''"
  shows "\<exists>ph. embed (llm cfg) th = Some ph
           \<and> perceived s' = perceived s @
                map (\<lambda>a. (agent_id a, createSignal fresh th ''external'' ph))
                    (filter (\<lambda>a. agent_id a \<noteq> ''external'') (listAgents s'))"
proof -
  have src: "(case src of None \<Rightarrow> ''external'' | Some i \<Rightarrow> i) = ''external''"
    using assms(2) by auto
  obtain r1 s1 where f: "flushBirthQueue (llm cfg) s = (r1, s1)"
    by (cases "flushBirthQueue (llm cfg) s") auto
  have p1: "perceived s1 = perceived s" using flushBirthQueue_perceived[of "llm cfg" s] f by simp
  obtain r2 s2 where g:
    "(if \<not> seeded s1 \<and> spawner cfg \<noteq> None then seedFromGoal cfg th s1 else (Inr (), s1)) = (r2, s2)"
    by (cases "if \<not> seeded s1 \<and> spawner cfg \<noteq> None then seedFromGoal cfg th s1 else (Inr (), s1)")
       auto
  have p2: "perceived s2 = perceived s1"
    using g seedFromGoal_perceived[of cfg th s1] by (auto split: if_splits)
  from assms(1) f g src obtain ph found where
      ph: "embed (llm cfg) th = Some ph"
    and s': "s' = perceive_all (filter (\<lambda>a. agent_id a \<noteq> ''external'')
                     (listAgents (s2\<lparr>calls := calls s2 @ [Embed th],
                        signalHistory := signalHistory s2 @ [createSignal fresh th ''external'' ph]\<rparr>)))
                  (createSignal fresh th ''external'' ph)
                  (s2\<lparr>calls := calls s2 @ [Embed th],
                      signalHistory := signalHistory s2 @ [createSignal fresh th ''external'' ph]\<rparr>)"
    by (auto simp: inject_def Let_def split: sum.splits option.splits)
  have la: "listAgents s' = listAgents s2"
    by (simp add: s' listAgents_def perceive_all_agents)
  have "perceived s' = perceived s2 @ map (\<lambda>a. (agent_id a, createSignal fresh th ''external'' ph))
              (filter (\<lambda>a. agent_id a \<noteq> ''external'') (listAgents s2))"
    by (simp add: s' perceive_all_perceived listAgents_def)
  with ph p1 p2 la show ?thesis by auto
qed

text \<open>When vector lengths agree, resonance never throws, and the injection returns.\<close>

lemma resonates_ok:
  "length ph = length v \<Longrightarrow> \<exists>r. resonates ph field v = Inr r"
  by (simp add: resonates_def cosineSimilarity_strict_def Let_def split: prod.splits)

lemma resonance_loop_ok:
  assumes "\<forall>(i, v) \<in> set cache. length v = length (pheromone sg)"
  shows "\<exists>rs. resonance_loop sg cache as acc = Inr rs"
proof (induction as arbitrary: acc)
  case Nil
  then show ?case by simp
next
  case (Cons a as)
  show ?case
  proof (cases "agent_id a = emittedBy sg")
    case True
    then show ?thesis using Cons.IH by simp
  next
    case False
    show ?thesis
    proof (cases "map_of cache (agent_id a)")
      case None
      then show ?thesis using False Cons.IH by simp
    next
      case (Some v)
      then have "(agent_id a, v) \<in> set cache" by (rule map_of_SomeD)
      with assms have "length (pheromone sg) = length v" by auto
      then obtain r where "resonates (pheromone sg) (receptorField a) v = Inr r"
        using resonates_ok by blast
      then show ?thesis using False Some Cons.IH by simp
    qed
  qed
qed

lemma findResonance_ok:
  assumes "\<forall>(i, v) \<in> set (receptorFieldCache s). length v = length (pheromone sg)"
  shows "\<exists>rs. findResonance s sg = Inr rs"
proof -
  obtain rs where "resonance_loop sg (receptorFieldCache s) (listAgents s) [] = Inr rs"
    using resonance_loop_ok[OF assms] by blast
  then show ?thesis by (simp add: findResonance_def Let_def)
qed

lemma inject_returns:
  assumes "birthQueue s = []" "seeded s \<or> spawner cfg = None" "embed (llm cfg) th = Some ph"
      and "\<forall>(i, v) \<in> set (receptorFieldCache s). length v = length ph"
  shows "\<exists>s'. inject cfg fresh th src s = (Inr (), s')"
proof -
  let ?sourceId = "case src of None \<Rightarrow> ''external'' | Some i \<Rightarrow> i"
  let ?sg = "createSignal fresh th ?sourceId ph"
  let ?s4 = "s\<lparr>calls := calls s @ [Embed th], signalHistory := signalHistory s @ [?sg]\<rparr>"
  have "\<forall>(i, v) \<in> set (receptorFieldCache ?s4). length v = length (pheromone ?sg)"
    using assms(4) by (simp add: createSignal_def)
  then obtain rs where "findResonance ?s4 ?sg = Inr rs" using findResonance_ok by blast
  then show ?thesis using assms(1-3)
    by (auto simp: inject_def flushBirthQueue_def Let_def)
qed

text \<open>
  C4. Let a signal be injected with author \<open>external\<close> (the default). If no birth is pending,
  no seeding is due, the thought can be embedded and every cached receptor vector has the
  pheromone's dimension, then \<open>inject\<close> returns normally. And whenever it returns normally,
  \<open>perceive\<close> has been called with the new signal on every agent of the registry other than
  the author, in registry order, and on nobody else, whatever the resonance test and the
  ambient fallback selected, an empty selection included.
\<close>

theorem inject_external_delivers_to_all:
  assumes "src = None \<or> src = Some ''external''"
  shows "(birthQueue s = [] \<and> (seeded s \<or> spawner cfg = None) \<and> embed (llm cfg) th = Some ph
            \<and> (\<forall>(i, v) \<in> set (receptorFieldCache s). length v = length ph)
          \<longrightarrow> (\<exists>s'. inject cfg fresh th src s = (Inr (), s')))
       \<and> (\<forall>s'. inject cfg fresh th src s = (Inr (), s') \<longrightarrow>
            (\<exists>ph'. embed (llm cfg) th = Some ph'
               \<and> perceived s' = perceived s @
                    map (\<lambda>a. (agent_id a, createSignal fresh th ''external'' ph'))
                        (filter (\<lambda>a. agent_id a \<noteq> ''external'') (listAgents s'))))"
  using assms inject_returns[of s cfg th ph fresh src] inject_external_broadcast[of cfg fresh th src s]
  by blast

text \<open>
  An injection nobody resonates with: the resonance test and the ambient fallback select no
  one, and all three agents perceive the signal.
\<close>

theorem inject_external_delivers_to_all_witness:
  "findResonance ex_quiet ex_injected = Inr []
   \<and> fst (inject ex_config (''sig-1'', 7) ''goal'' None ex_quiet) = Inr ()
   \<and> perceived (snd (inject ex_config (''sig-1'', 7) ''goal'' None ex_quiet))
       = [(''a'', ex_injected), (''b'', ex_injected), (''c'', ex_injected)]"
proof -
  let ?run = "inject ex_config (''sig-1'', 7) ''goal'' None ex_quiet"
  have r: "findResonance ex_quiet ex_injected = Inr []"
    by (simp add: findResonance_def ex_quiet_def ex_world_def ex_injected_def createSignal_def
          listAgents_def ex_agent_def resonates_def cosineSimilarity_strict_def
          cosineSimilarity_def Let_def)
  have pre: "birthQueue ex_quiet = [] \<and> (seeded ex_quiet \<or> spawner ex_config = None)
             \<and> embed (llm ex_config) ''goal'' = Some [1, 0]
             \<and> (\<forall>(i, v) \<in> set (receptorFieldCache ex_quiet). length v = length [1::real, 0])"
    by (simp add: ex_quiet_def ex_world_def ex_config_def ex_chat_backend_def)
  have src: "(None :: string option) = None \<or> None = Some ''external''" by simp
  note inst = inject_external_delivers_to_all[OF src,
                of ex_quiet ex_config "''goal''" "[1, 0]" "(''sig-1'', 7)"]
  from inst pre obtain s' where e: "?run = (Inr (), s')" by blast
  with inst obtain ph' where ph': "embed (llm ex_config) ''goal'' = Some ph'"
    and p: "perceived s' = perceived ex_quiet @
              map (\<lambda>a. (agent_id a, createSignal (''sig-1'', 7) ''goal'' ''external'' ph'))
                  (filter (\<lambda>a. agent_id a \<noteq> ''external'') (listAgents s'))"
    by blast
  have a: "listAgents (snd ?run) = [ex_agent ''a'', ex_agent ''b'', ex_agent ''c'']"
    by (simp add: inject_def flushBirthQueue_def ex_config_def ex_chat_backend_def
          ex_quiet_def ex_world_def findResonance_def createSignal_def
          listAgents_def ex_agent_def resonates_def cosineSimilarity_strict_def
          cosineSimilarity_def Let_def perceive_def)
  from ph' pre have "ph' = [1, 0]" by simp
  with p a e have "perceived (snd ?run)
        = perceived ex_quiet @ [(''a'', ex_injected), (''b'', ex_injected), (''c'', ex_injected)]"
    by (simp add: ex_injected_def ex_agent_def)
  then show ?thesis using r e by (simp add: ex_quiet_def ex_world_def)
qed

lemma findSimilar_unchanged:
  "agents (snd (findSimilar be nm s)) = agents s
   \<and> perceived (snd (findSimilar be nm s)) = perceived s"
  by (auto simp: findSimilar_def split: option.splits prod.splits)

lemma birth_perceived: "perceived (snd (birth be a s)) = perceived s"
  by (simp add: birth_def birth_begin_def birth_complete_def split: option.splits)

text \<open>
  A bridge attempt delivers to nobody, or to one newly born agent whose id was not in the
  registry before.
\<close>

lemma spawnBridgeAgent_perceived:
  "perceived (snd (spawnBridgeAgent cfg sg source target sim s)) = perceived s
   \<or> (\<exists>bridge::agent. \<not> map_has (agent_id bridge) (agents s)
        \<and> perceived (snd (spawnBridgeAgent cfg sg source target sim s))
            = perceived s @ [(agent_id bridge, sg)])"
proof (cases "spawner cfg")
  case None
  then show ?thesis by (simp add: spawnBridgeAgent_def)
next
  case (Some sp)
  note spawn = this
  let ?s1 = "s\<lparr>calls := calls s @ [Chat (bridgeMessages cfg sg source target)]\<rparr>"
  show ?thesis
  proof (cases "chat (llm cfg) (bridgeMessages cfg sg source target)")
    case None
    with spawn show ?thesis by (simp add: spawnBridgeAgent_def Let_def)
  next
    case (Some bridgeSpec)
    note answer = this
    show ?thesis
    proof (cases "parseBridgeSpec cfg bridgeSpec")
      case None
      with spawn answer show ?thesis by (simp add: spawnBridgeAgent_def Let_def)
    next
      case (Some blueprint)
      note parse = this
      obtain r s2 where fs: "findSimilar (llm cfg) (spec_name blueprint) ?s1 = (r, s2)"
        by (cases "findSimilar (llm cfg) (spec_name blueprint) ?s1") auto
      have s2: "agents s2 = agents s" "perceived s2 = perceived s"
        using findSimilar_unchanged[of "llm cfg" "spec_name blueprint" ?s1] fs by simp_all
      have bp: "\<And>b. perceived (snd (birth (llm cfg) b s2)) = perceived s"
        using birth_perceived s2 by simp
      let ?mat = "case spawnBridgeAgent_op sp of
                    Some materialize \<Rightarrow> materialize blueprint sg source target (listAgents s2)
                  | None \<Rightarrow> Some (Some (bridgeFromBlueprint blueprint))"
      have unfold: "spawnBridgeAgent cfg sg source target sim s =
          (case r of
             Inl e \<Rightarrow> (Inr (), s2)
           | Inr (Some existing) \<Rightarrow> (Inr (), s2)
           | Inr None \<Rightarrow>
               (case ?mat of
                  None \<Rightarrow> (Inr (), s2)
                | Some None \<Rightarrow> (Inr (), s2)
                | Some (Some bridge) \<Rightarrow>
                    (if map_has (agent_id bridge) (agents s2) then (Inr (), s2)
                     else (case birth (llm cfg) bridge s2 of
                         (Inl e, s3) \<Rightarrow> (Inr (), s3)
                       | (Inr u, s3) \<Rightarrow> (Inr (), perceive bridge sg s3)))))"
        using spawn answer parse fs
        by (simp add: spawnBridgeAgent_def Let_def split: sum.splits option.splits)
      show ?thesis
      proof (cases r)
        case (Inl e)
        then show ?thesis using unfold s2 by simp
      next
        case (Inr found)
        note right = this
        show ?thesis
        proof (cases found)
          case (Some existing)
          then show ?thesis using unfold s2 right by simp
        next
          case None
          note none = this
          show ?thesis
          proof (cases ?mat)
            case None
            then show ?thesis using unfold s2 right none by simp
          next
            case (Some ob)
            note mat = this
            show ?thesis
            proof (cases ob)
              case None
              then show ?thesis using unfold s2 right none mat by simp
            next
              case (Some bridge)
              show ?thesis
              proof (cases "map_has (agent_id bridge) (agents s2)")
                case True
                then show ?thesis using unfold s2 right none mat Some by simp
              next
                case False
                obtain rb s3 where b: "birth (llm cfg) bridge s2 = (rb, s3)"
                  by (cases "birth (llm cfg) bridge s2") auto
                have p3: "perceived s3 = perceived s" using bp[of bridge] b by simp
                have nb: "\<not> map_has (agent_id bridge) (agents s)" using False s2 by simp
                show ?thesis
                proof (cases rb)
                  case (Inl e)
                  then show ?thesis using unfold right none mat Some False b p3 by simp
                next
                  case (Inr u)
                  then have eq: "perceived (snd (spawnBridgeAgent cfg sg source target sim s))
                             = perceived s @ [(agent_id bridge, sg)]"
                    using unfold right none mat Some False b p3
                    by (simp add: perceive_def)
                  show ?thesis
                    by (rule disjI2, rule exI[of _ bridge]) (simp add: nb eq)
                qed
              qed
            qed
          qed
        qed
      qed
    qed
  qed
qed

lemma spawnBridgeAgent_no_delivery:
  assumes "map_has (agent_id receiver) (agents s)"
  shows "filter (\<lambda>p. fst p = agent_id receiver)
           (perceived (snd (spawnBridgeAgent cfg sg source target sim s)))
         = filter (\<lambda>p. fst p = agent_id receiver) (perceived s)"
proof -
  from spawnBridgeAgent_perceived[of cfg sg source target sim s]
  show ?thesis
  proof (elim disjE exE conjE)
    assume "perceived (snd (spawnBridgeAgent cfg sg source target sim s)) = perceived s"
    then show ?thesis by simp
  next
    fix bridge :: agent
    assume nb: "\<not> map_has (agent_id bridge) (agents s)"
      and p: "perceived (snd (spawnBridgeAgent cfg sg source target sim s))
              = perceived s @ [(agent_id bridge, sg)]"
    from nb assms have "agent_id bridge \<noteq> agent_id receiver" by auto
    with p show ?thesis by simp
  qed
qed

text \<open>
  C1. For a receiver with a cached receptor vector, \<open>propagateToReceiver\<close> computes the cosine
  similarity of the signal's pheromone and that vector and compares strictly. Above 0.8 the
  receiver perceives the signal untouched and nothing else changes. In (0.5, 0.8], 0.8
  included, the synapse of the ordered pair is fetched or created, the signal is transformed,
  and the receiver perceives the transformed signal. In (0.3, 0.5], 0.5 included, the call is
  the bridge attempt, which never calls \<open>perceive\<close> on a registered receiver. At 0.3 and below
  the state is unchanged.
\<close>

theorem propagateToReceiver_tiers:
  assumes "map_of (receptorFieldCache s) (agent_id receiver) = Some v"
      and "sim = cosineSimilarity (pheromone sg) v"
  shows "(sim > 8 / 10 \<longrightarrow>
            propagateToReceiver cfg clock sg source receiver s = (Inr (), perceive receiver sg s))
       \<and> (5 / 10 < sim \<and> sim \<le> 8 / 10 \<longrightarrow>
            propagateToReceiver cfg clock sg source receiver s =
              (case getOrCreateSynapse source receiver sim s of
                 (synapseId, syn, s1) \<Rightarrow>
                   (case transform (llm cfg) clock syn sg of
                      (transformed, syn', made) \<Rightarrow>
                        (Inr (), perceive receiver transformed
                           (s1\<lparr>synapses := map_set synapseId syn' (synapses s1),
                               calls := calls s1 @ made\<rparr>)))))
       \<and> (3 / 10 < sim \<and> sim \<le> 5 / 10 \<longrightarrow>
            propagateToReceiver cfg clock sg source receiver s
              = spawnBridgeAgent cfg sg source receiver sim s
            \<and> (map_has (agent_id receiver) (agents s) \<longrightarrow>
                filter (\<lambda>p. fst p = agent_id receiver)
                       (perceived (snd (propagateToReceiver cfg clock sg source receiver s)))
                = filter (\<lambda>p. fst p = agent_id receiver) (perceived s)))
       \<and> (sim \<le> 3 / 10 \<longrightarrow> propagateToReceiver cfg clock sg source receiver s = (Inr (), s))"
proof -
  have bridge: "3 / 10 < sim \<and> sim \<le> 5 / 10 \<Longrightarrow>
      propagateToReceiver cfg clock sg source receiver s
        = spawnBridgeAgent cfg sg source receiver sim s"
    using assms by (simp add: propagateToReceiver_def Let_def)
  show ?thesis
    using assms bridge spawnBridgeAgent_no_delivery[of receiver s cfg sg source receiver sim]
    by (auto simp: propagateToReceiver_def Let_def)
qed

text \<open>The bridge attempt of the example: a bridge is born and perceives the signal.\<close>

lemma ex_bridge_run:
  "perceived (snd (spawnBridgeAgent ex_bridge_config ex_wide (ex_agent ''a'') (ex_agent ''b'')
                     (5 / 10) ex_weak))
     = [(''bridge'', ex_wide)]
   \<and> map fst (agents (snd (spawnBridgeAgent ex_bridge_config ex_wide (ex_agent ''a'')
                             (ex_agent ''b'') (5 / 10) ex_weak)))
     = [''a'', ''b'', ''c'', ''bridge'']"
  by (simp add: spawnBridgeAgent_def ex_bridge_config_def ex_weak_def ex_world_def ex_agent_def
        ex_blueprint_def findSimilar_def listAgents_def cosineSimilarity_def map_has_def
        bridgeFromBlueprint_def birth_def birth_begin_def birth_complete_def receptorText_def
        perceive_def Let_def)

text \<open>
  One run per tier. Above 0.8 (similarity 1) the receiver perceives the untouched signal. At
  exactly 0.8 (pheromone (1, 0) against (4, 3)) it perceives the transformed signal, not the
  original. At exactly 0.5 the receiver perceives nothing and a bridge is spawned, which
  perceives the signal. At exactly 0.3 nothing happens, although a spawner is configured.
\<close>

theorem propagateToReceiver_tiers_witness:
  "cosineSimilarity (pheromone (ex_hello\<lparr>emittedBy := ''c''\<rparr>)) [1, 0] = 1
   \<and> propagateToReceiver ex_config ex_clock (ex_hello\<lparr>emittedBy := ''c''\<rparr>)
         (ex_agent ''c'') (ex_agent ''a'') ex_world
       = (Inr (), ex_world\<lparr>perceived := [(''a'', ex_hello\<lparr>emittedBy := ''c''\<rparr>)]\<rparr>)
   \<and> cosineSimilarity (pheromone ex_hello) [4, 3] = 8 / 10
   \<and> perceived (snd (propagateToReceiver ex_config ex_clock ex_hello
                       (ex_agent ''a'') (ex_agent ''b'') ex_world))
       = [(''b'', ex_hello\<lparr>thought := ''hi'', emittedBy := ''a''\<rparr>)]
   \<and> cosineSimilarity (pheromone ex_wide) [1, 0, 0, 0] = 5 / 10
   \<and> perceived (snd (propagateToReceiver ex_bridge_config ex_clock ex_wide
                       (ex_agent ''a'') (ex_agent ''b'') ex_weak))
       = [(''bridge'', ex_wide)]
   \<and> filter (\<lambda>p. fst p = ''b'')
         (perceived (snd (propagateToReceiver ex_bridge_config ex_clock ex_wide
                            (ex_agent ''a'') (ex_agent ''b'') ex_weak))) = []
   \<and> cosineSimilarity (pheromone ex_faint) [1, 0, 1, 1, 1] = 3 / 10
   \<and> propagateToReceiver ex_bridge_config ex_clock ex_faint (ex_agent ''a'') (ex_agent ''c'') ex_weak
       = (Inr (), ex_weak)"
proof -
  have d1: "map_of (receptorFieldCache ex_world) (agent_id (ex_agent ''a'')) = Some [1, 0]"
    by (simp add: ex_world_def ex_agent_def)
  have d2: "1 = cosineSimilarity (pheromone (ex_hello\<lparr>emittedBy := ''c''\<rparr>)) [1, 0]"
    by (simp add: ex_hello_def cosineSimilarity_def)
  have direct: "propagateToReceiver ex_config ex_clock (ex_hello\<lparr>emittedBy := ''c''\<rparr>)
         (ex_agent ''c'') (ex_agent ''a'') ex_world
       = (Inr (), ex_world\<lparr>perceived := [(''a'', ex_hello\<lparr>emittedBy := ''c''\<rparr>)]\<rparr>)"
    using propagateToReceiver_tiers[OF d1 d2, of ex_config ex_clock "ex_agent ''c''"]
    by (simp add: perceive_def ex_world_def ex_agent_def)
  have h1: "map_of (receptorFieldCache ex_world) (agent_id (ex_agent ''b'')) = Some [4, 3]"
    by (simp add: ex_world_def ex_agent_def)
  have h2: "8 / 10 = cosineSimilarity (pheromone ex_hello) [4, 3]"
    by (simp add: ex_hello_def cosine_boundary)
  have top: "perceived (snd (propagateToReceiver ex_config ex_clock ex_hello
                       (ex_agent ''a'') (ex_agent ''b'') ex_world))
       = [(''b'', ex_hello\<lparr>thought := ''hi'', emittedBy := ''a''\<rparr>)]"
    using propagateToReceiver_tiers[OF h1 h2, of ex_config ex_clock "ex_agent ''a''"]
    by (simp add: getOrCreateSynapse_def ex_world_def ex_agent_def ex_config_def
          ex_chat_backend_def ex_hello_def createSignalSynapse_def transform_def
          transformMessages_def perceive_def Let_def)
  have m1: "map_of (receptorFieldCache ex_weak) (agent_id (ex_agent ''b'')) = Some [1, 0, 0, 0]"
    by (simp add: ex_weak_def ex_agent_def)
  have m2: "5 / 10 = cosineSimilarity (pheromone ex_wide) [1, 0, 0, 0]"
    by (simp add: ex_wide_def cosine_half)
  have m3: "map_has (agent_id (ex_agent ''b'')) (agents ex_weak)"
    by (simp add: map_has_def ex_weak_def ex_world_def ex_agent_def)
  note middle = propagateToReceiver_tiers[OF m1 m2, of ex_bridge_config ex_clock "ex_agent ''a''"]
  have mid: "perceived (snd (propagateToReceiver ex_bridge_config ex_clock ex_wide
                       (ex_agent ''a'') (ex_agent ''b'') ex_weak))
       = [(''bridge'', ex_wide)]"
    using middle ex_bridge_run by simp
  have quiet: "filter (\<lambda>p. fst p = ''b'')
         (perceived (snd (propagateToReceiver ex_bridge_config ex_clock ex_wide
                            (ex_agent ''a'') (ex_agent ''b'') ex_weak))) = []"
  proof -
    have idb: "agent_id (ex_agent ''b'') = ''b''" by (simp add: ex_agent_def)
    have pw: "perceived ex_weak = []" by (simp add: ex_weak_def ex_world_def)
    have range: "3 / 10 < (5 / 10 :: real) \<and> (5 / 10 :: real) \<le> 5 / 10" by simp
    from middle range m3
    have "filter (\<lambda>p. fst p = agent_id (ex_agent ''b''))
            (perceived (snd (propagateToReceiver ex_bridge_config ex_clock ex_wide
                               (ex_agent ''a'') (ex_agent ''b'') ex_weak)))
          = filter (\<lambda>p. fst p = agent_id (ex_agent ''b'')) (perceived ex_weak)"
      by blast
    then show ?thesis by (simp only: idb pw filter.simps)
  qed
  have l1: "map_of (receptorFieldCache ex_weak) (agent_id (ex_agent ''c'')) = Some [1, 0, 1, 1, 1]"
    by (simp add: ex_weak_def ex_agent_def)
  have l2: "3 / 10 = cosineSimilarity (pheromone ex_faint) [1, 0, 1, 1, 1]"
    by (simp add: ex_faint_def cosine_three_tenths)
  have low: "propagateToReceiver ex_bridge_config ex_clock ex_faint (ex_agent ''a'') (ex_agent ''c'')
               ex_weak = (Inr (), ex_weak)"
    using propagateToReceiver_tiers[OF l1 l2, of ex_bridge_config ex_clock "ex_agent ''a''"]
    by simp
  show ?thesis using d2 direct h2 top m2 mid quiet l2 low by simp
qed

end
